theory Spec2Isabelle
  imports Complex_Main
begin

section \<open>Python values and small library functions\<close>

text \<open>
  The backend is Python. Request payloads are JSON objects; the model keeps their
  string-valued fields, as a map from key to value. A value is falsy when it is
  absent (\<open>None\<close>) or the empty string, which is what \<open>not url\<close> and
  \<open>payload.get("id") or ...\<close> test.
\<close>

type_synonym payload = "string \<rightharpoonup> string"

definition falsy :: "string option \<Rightarrow> bool" where
  "falsy v = (case v of None \<Rightarrow> True | Some s \<Rightarrow> s = [])"

definition get_default :: "payload \<Rightarrow> string \<Rightarrow> string \<Rightarrow> string" where
  "get_default p k dflt = (case p k of None \<Rightarrow> dflt | Some v \<Rightarrow> v)"

text \<open>\<open>str(n)\<close> for an integer: decimal digits, most significant first.\<close>

definition digit_char :: "nat \<Rightarrow> char" where
  "digit_char n = ''0123456789'' ! n"

function str_nat :: "nat \<Rightarrow> string" where
  "str_nat n = (if n < 10 then [digit_char n] else str_nat (n div 10) @ [digit_char (n mod 10)])"
  by pat_completeness auto
termination
  by (relation "measure (\<lambda>n. n)") auto

declare str_nat.simps [simp del]

definition py_str_int :: "int \<Rightarrow> string" where
  "py_str_int i = (if i < 0 then CHR ''-'' # str_nat (nat (- i)) else str_nat (nat i))"

text \<open>
  \<open>main.safe_hash_id\<close>: \<open>str(abs(hash(s)))[:12]\<close>. Python's builtin \<open>hash\<close> on
  strings is seeded once per process, so within one run it is a fixed function from
  strings to integers; it is the parameter \<open>hash\<close> here.
\<close>

definition safe_hash_id :: "(string \<Rightarrow> int) \<Rightarrow> string \<Rightarrow> string" where
  "safe_hash_id hash s = take 12 (py_str_int (abs (hash s)))"

text \<open>
  The identifier of a creation request, \<open>payload.get("id") or safe_hash_id(source)\<close>,
  written the same way in \<open>start_download\<close> (source: the URL) and in the torrent
  route \<open>add_torrent\<close> (source: the magnet URI).
\<close>

definition request_id :: "(string \<Rightarrow> int) \<Rightarrow> payload \<Rightarrow> string \<Rightarrow> string" where
  "request_id hash p source =
     (if falsy (p ''id'') then safe_hash_id hash source else the (p ''id''))"

definition is_digit :: "char \<Rightarrow> bool" where
  "is_digit c = (c \<in> set ''0123456789'')"

text \<open>A sample hash function, used to run the definitions on concrete requests.\<close>

definition sample_hash :: "string \<Rightarrow> int" where
  "sample_hash s = - (int (length s) * 1234567890123)"

section \<open>Progress messages\<close>

text \<open>
  A hook dictionary of the media engine and the numbers it carries: a value is
  \<open>None\<close>, a number or a string. Numbers (Python ints and floats) are passed through
  unchanged by the code, so they are kept as rationals.
\<close>

datatype py_val = PNone | PNum rat | PStr string

definition truthy :: "py_val \<Rightarrow> bool" where
  "truthy v = (case v of PNone \<Rightarrow> False | PNum r \<Rightarrow> r \<noteq> 0 | PStr t \<Rightarrow> t \<noteq> [])"

definition dict_get :: "(string \<rightharpoonup> py_val) \<Rightarrow> string \<Rightarrow> py_val \<Rightarrow> py_val" where
  "dict_get d k dflt = (case d k of None \<Rightarrow> dflt | Some v \<Rightarrow> v)"

definition py_or :: "py_val \<Rightarrow> py_val \<Rightarrow> py_val" where
  "py_or a b = (if truthy a then a else b)"

text \<open>
  Every dictionary that the code hands to a progress callback or to \<open>ws_manager.send\<close>,
  one constructor per shape:
  \<^item> \<open>Cancelled\<close>: \<open>{"status": "cancelled"}\<close> (both lanes);
  \<^item> \<open>Fetching_metadata peers\<close>, \<open>Metadata name total_size num_files\<close>: the torrent monitor;
  \<^item> \<open>Downloading_media downloaded_bytes total_bytes speed eta\<close>: \<open>progress_hook\<close>;
  \<^item> \<open>Downloading_torrent progress download_rate upload_rate num_peers num_seeds eta state\<close>;
  \<^item> \<open>Processing message\<close>: \<open>progress_hook\<close> on the engine's own "finished";
  \<^item> \<open>Finished_media final_path filename\<close>: the end of \<open>download_task\<close>;
  \<^item> \<open>Error message\<close>: the \<open>except\<close> branch of \<open>download_task\<close>;
  \<^item> \<open>Finished_torrent save_path name\<close> and \<open>Completed id file_path name\<close>
    (\<open>{"event": "completed", ...}\<close>, which has no "status" key): the end of the monitor;
  \<^item> \<open>Watcher_finished final_path\<close>: \<open>{"status": "finished", "result": {"final_path": ...}}\<close>
    sent by the watcher of \<open>start_download\<close>;
  \<^item> \<open>Torrent_completed id save_path\<close>: the toast message
    \<open>{"event": "torrent_completed", "status": "finished", ...}\<close> of the torrent route.
\<close>

datatype message =
    Cancelled
  | Fetching_metadata int
  | Metadata string int int
  | Downloading_media py_val py_val py_val py_val
  | Downloading_torrent rat int int int int int string
  | Processing string
  | Finished_media string string
  | Error string
  | Finished_torrent string string
  | Completed string string string
  | Watcher_finished "string option"
  | Torrent_completed string string

text \<open>\<open>msg.get("status")\<close>.\<close>

fun status_of :: "message \<Rightarrow> string option" where
  "status_of Cancelled = Some ''cancelled''"
| "status_of (Fetching_metadata _) = Some ''fetching_metadata''"
| "status_of (Metadata _ _ _) = Some ''metadata''"
| "status_of (Downloading_media _ _ _ _) = Some ''downloading''"
| "status_of (Downloading_torrent _ _ _ _ _ _ _) = Some ''downloading''"
| "status_of (Processing _) = Some ''processing''"
| "status_of (Finished_media _ _) = Some ''finished''"
| "status_of (Error _) = Some ''error''"
| "status_of (Finished_torrent _ _) = Some ''finished''"
| "status_of (Completed _ _ _) = None"
| "status_of (Watcher_finished _) = Some ''finished''"
| "status_of (Torrent_completed _ _) = Some ''finished''"

text \<open>\<open>msg.get("save_path", "")\<close>.\<close>

fun save_path_of :: "message \<Rightarrow> string" where
  "save_path_of (Finished_torrent sp _) = sp"
| "save_path_of (Torrent_completed _ sp) = sp"
| "save_path_of _ = []"

text \<open>A terminal event is one whose status is finished, cancelled or error.\<close>

definition terminal :: "message \<Rightarrow> bool" where
  "terminal m = (status_of m = Some ''finished'' \<or> status_of m = Some ''cancelled''
                 \<or> status_of m = Some ''error'')"

section \<open>Paths\<close>

text \<open>
  \<open>pathlib\<close> on POSIX paths: \<open>Path(p).name\<close> is the last component, \<open>Path(p).stem\<close> is
  the name without its last suffix (a suffix starts at a dot that is neither the first
  nor the last character of the name), \<open>Path(d) / f\<close> joins with a slash.
\<close>

definition path_name :: "string \<Rightarrow> string" where
  "path_name p =
     rev (takeWhile (\<lambda>c. c \<noteq> CHR ''/'') (dropWhile (\<lambda>c. c = CHR ''/'') (rev p)))"

definition path_stem :: "string \<Rightarrow> string" where
  "path_stem p =
     (let n = path_name p;
          suffix = takeWhile (\<lambda>c. c \<noteq> CHR ''.'') (rev n);
          base = take (length n - length suffix - 1) n
      in if CHR ''.'' \<in> set n \<and> base \<noteq> [] \<and> suffix \<noteq> [] then base else n)"

definition path_join :: "string \<Rightarrow> string \<Rightarrow> string" where
  "path_join d f = d @ ''/'' @ f"

section \<open>downloader.py: the media worker\<close>

text \<open>
  One call of the engine's progress hook: the dictionary \<open>d\<close> the engine passes and
  what \<open>cancel_event.is_set()\<close> returns at that moment (the token is set by a
  concurrent cancel request, so its reading belongs to the worker's environment).
\<close>

record hook_call =
  cancel_set :: bool
  hook_d :: "string \<rightharpoonup> py_val"

text \<open>
  \<open>progress_hook\<close>: raises (\<open>Inl\<close>, the exception's text) or returns after handing
  zero or one message to the callback. \<open>d['status']\<close> on a dictionary without that key
  raises \<open>KeyError\<close>, whose text is the quoted key.
\<close>

definition progress_hook :: "hook_call \<Rightarrow> string + message list" where
  "progress_hook c =
     (if cancel_set c then Inl ''Download cancelled''
      else case hook_d c ''status'' of
        None \<Rightarrow> Inl (CHR 0x27 # ''status'' @ [CHR 0x27])
      | Some st \<Rightarrow>
          if st = PStr ''downloading'' then
            (let total = py_or (dict_get (hook_d c) ''total_bytes'' PNone)
                               (dict_get (hook_d c) ''total_bytes_estimate'' (PNum 0));
                 downloaded = dict_get (hook_d c) ''downloaded_bytes'' (PNum 0);
                 speed = dict_get (hook_d c) ''speed'' (PNum 0);
                 eta = dict_get (hook_d c) ''eta'' (PNum 0)
             in Inr [Downloading_media downloaded total speed eta])
          else if st = PStr ''finished'' then Inr [Processing ''Processing file...'']
          else Inr [])"

text \<open>
  The media engine (yt-dlp) as the worker sees it for one job: what \<open>extract_info\<close>
  and \<open>prepare_filename\<close> return or raise, the reading of the cancellation token right
  after extraction, the hook calls \<open>ydl.download\<close> makes in order, and the exception
  \<open>ydl.download\<close> raises by itself after them, if any.
\<close>

record ydl_info =
  info_title :: "string option"
  info_ext :: "string option"

record media_engine =
  extract_info :: "string + ydl_info"
  cancel_after_extract :: bool
  prepare_filename :: "string + string"
  hook_calls :: "hook_call list"
  download_raises :: "string option"

text \<open>
  \<open>ydl.download([url])\<close>: the hooks run in order; an exception raised by a hook ends
  the download and propagates to the caller. The result is the messages handed to the
  callback so far and the exception that ended the call, if any.
\<close>

fun ydl_download :: "hook_call list \<Rightarrow> string option \<Rightarrow> message list \<times> string option" where
  "ydl_download [] raises = ([], raises)"
| "ydl_download (c # cs) raises =
     (case progress_hook c of
        Inl e \<Rightarrow> ([], Some e)
      | Inr ms \<Rightarrow> (case ydl_download cs raises of (ms', r) \<Rightarrow> (ms @ ms', r)))"

text \<open>
  \<open>run_download_in_thread.download_task\<close>: the messages the worker hands to
  \<open>progress_callback\<close>, in order. Every exception inside the \<open>try\<close> ends in the
  \<open>except\<close> branch, which reports \<open>{"status": "error", "error": str(e)}\<close>.
\<close>

definition download_task :: "string \<Rightarrow> string \<Rightarrow> media_engine \<Rightarrow> message list" where
  "download_task download_dir mode eng =
     (case extract_info eng of
        Inl e \<Rightarrow> [Error e]
      | Inr info \<Rightarrow>
          if cancel_after_extract eng then [Cancelled]
          else case prepare_filename eng of
            Inl e \<Rightarrow> [Error e]
          | Inr prepared \<Rightarrow>
              (let sanitized_title = path_stem prepared in
               case ydl_download (hook_calls eng) (download_raises eng) of
                 (ms, Some e) \<Rightarrow> ms @ [Error e]
               | (ms, None) \<Rightarrow>
                   (let ext = (if mode = ''audio'' then ''mp3''
                               else case info_ext info of None \<Rightarrow> ''mp4'' | Some x \<Rightarrow> x);
                        final_filename = sanitized_title @ ''.'' @ ext;
                        final_path = path_join download_dir final_filename
                    in ms @ [Finished_media final_path final_filename])))"

section \<open>torrent_downloader.py: the torrent manager and its monitor\<close>

text \<open>
  What \<open>handle.status()\<close> returns. Byte counts and rates are integers; \<open>progress\<close> is
  the engine's fraction in [0, 1], a float in the source and an exact rational here.
\<close>

record torrent_status =
  num_peers :: int
  download_rate :: int
  upload_rate :: int
  num_seeds :: int
  total_wanted :: int
  total_wanted_done :: int
  progress :: rat
  state :: string

record torrent_info =
  info_name :: string
  total_size :: int
  num_files :: int

text \<open>
  \<open>round(x, 2)\<close>: to two decimals, ties to the even neighbour.
\<close>

definition round_half_even :: "rat \<Rightarrow> int" where
  "round_half_even x =
     (let f = \<lfloor>x\<rfloor>; r = x - of_int f
      in if r < 1 / 2 then f else if 1 / 2 < r then f + 1 else if even f then f else f + 1)"

definition py_round2 :: "rat \<Rightarrow> rat" where
  "py_round2 x = of_int (round_half_even (x * 100)) / 100"

text \<open>
  \<open>int(a / b)\<close> on Python integers: \<open>a / b\<close> is the exact quotient rounded to the
  nearest binary64 float (53 significant bits, ties to even), and \<open>int\<close> truncates the
  float toward zero. \<open>bit_length\<close> counts binary digits, \<open>float_exponent x\<close> is the
  exponent \<open>e\<close> with \<open>2^e \<le> x < 2^(e+1)\<close> for positive \<open>x\<close>. The quotients in question
  lie far inside the range of normal floats (64-bit byte counts over a positive 32-bit
  rate), so overflow and subnormal numbers do not occur. Division by zero raises in
  Python; the monitor divides only by a positive rate.
\<close>

function bit_length :: "nat \<Rightarrow> nat" where
  "bit_length n = (if n = 0 then 0 else Suc (bit_length (n div 2)))"
  by pat_completeness auto
termination
  by (relation "measure (\<lambda>n. n)") auto

declare bit_length.simps [simp del]

definition float_exponent :: "rat \<Rightarrow> int" where
  "float_exponent x =
     (if 1 \<le> x then int (bit_length (nat \<lfloor>x\<rfloor>)) - 1
      else - int (bit_length (nat (\<lceil>1 / x\<rceil> - 1))))"

definition float_round :: "rat \<Rightarrow> rat" where
  "float_round x =
     (if x = 0 then 0
      else (let ulp = 2 powi (float_exponent \<bar>x\<bar> - 52)
            in of_int (round_half_even (x / ulp)) * ulp))"

definition py_int :: "rat \<Rightarrow> int" where
  "py_int x = (if 0 \<le> x then \<lfloor>x\<rfloor> else \<lceil>x\<rceil>)"

definition py_int_truediv :: "int \<Rightarrow> int \<Rightarrow> int" where
  "py_int_truediv a b = py_int (float_round (of_int a / of_int b))"

text \<open>The \<open>eta\<close> computation and the \<open>downloading\<close> dictionary of the monitor's download loop.\<close>

definition torrent_eta :: "torrent_status \<Rightarrow> int" where
  "torrent_eta st =
     (if download_rate st > 0
      then py_int_truediv (total_wanted st - total_wanted_done st) (download_rate st)
      else 0)"

definition downloading_msg :: "torrent_status \<Rightarrow> message" where
  "downloading_msg st =
     Downloading_torrent (py_round2 (progress st * 100)) (download_rate st) (upload_rate st)
       (num_peers st) (num_seeds st) (torrent_eta st) (state st)"

text \<open>
  The \<open>TorrentDownloader\<close> object. \<open>session\<close> lists the handles registered in the
  engine's session (\<open>session.add_torrent\<close> adds one, \<open>session.remove_torrent\<close> removes
  it); \<open>handles\<close> and \<open>cancel_events\<close> are the two dictionaries. A cancellation
  token of this lane is reachable only through \<open>cancel_events\<close> (the monitor looks it
  up by key at every check), so the dictionary holds the token's flag itself.
  \<open>monitors\<close> lists the monitor threads started, \<open>announced\<close> the handles on which a
  re-announce was forced.
\<close>

record torrent_downloader =
  download_dir :: string
  session :: "nat list"
  handles :: "string \<rightharpoonup> nat"
  cancel_events :: "string \<rightharpoonup> bool"
  monitors :: "(string \<times> nat) list"
  announced :: "nat list"

text \<open>
  The engine calls of \<open>add_torrent\<close> that can raise: \<open>lt.parse_magnet_uri\<close> and
  \<open>session.add_torrent\<close> (given the handles already in the session), each returning
  the exception's text or its result.
\<close>

record lt_engine =
  parse_magnet_uri :: "string \<Rightarrow> string + string"
  session_add_torrent :: "nat list \<Rightarrow> string \<Rightarrow> string + nat"

definition TorrentDownloader :: "string \<Rightarrow> torrent_downloader" where
  "TorrentDownloader dir =
     \<lparr>download_dir = dir, session = [], handles = Map.empty, cancel_events = Map.empty,
      monitors = [], announced = []\<rparr>"

text \<open>
  \<open>TorrentDownloader.add_torrent\<close>: both engine exceptions are re-raised (\<open>Inl\<close>);
  otherwise the handle is announced, stored under \<open>torrent_id\<close> together with a fresh
  token, and a monitor thread is started. There is no check whether \<open>torrent_id\<close> is
  already a key of either dictionary.
\<close>

definition add_torrent ::
  "lt_engine \<Rightarrow> torrent_downloader \<Rightarrow> string \<Rightarrow> string \<Rightarrow> string + torrent_downloader" where
  "add_torrent lt m torrent_id magnet =
     (case parse_magnet_uri lt magnet of
        Inl e \<Rightarrow> Inl e
      | Inr params \<Rightarrow>
          (case session_add_torrent lt (session m) params of
             Inl e \<Rightarrow> Inl e
           | Inr handle \<Rightarrow>
               Inr (m\<lparr>session := List.insert handle (session m),
                       announced := announced m @ [handle],
                       handles := (handles m)(torrent_id \<mapsto> handle),
                       cancel_events := (cancel_events m)(torrent_id \<mapsto> False),
                       monitors := monitors m @ [(torrent_id, handle)]\<rparr>)))"

text \<open>
  One poll of the monitor: the readings of \<open>handle.has_metadata()\<close>,
  \<open>handle.is_seed()\<close>, \<open>self.cancel_events[torrent_id].is_set()\<close> and
  \<open>handle.status()\<close> in one loop iteration. The iteration in which the metadata loop
  ends runs on into the first check of the download loop without sleeping, so both use
  the same poll.
\<close>

record tick =
  has_metadata :: bool
  is_seed :: bool
  cancel_is_set :: bool
  tick_status :: torrent_status

text \<open>
  How a run of the monitor over a finite list of polls ends: at one of its three
  \<open>return\<close> points, or still inside a loop when the polls run out.
\<close>

datatype monitor_exit = Still_polling | Cancelled_fetching | Cancelled_downloading | Seeded

text \<open>The download loop of \<open>_monitor\<close> and the code after it.\<close>

fun download_phase ::
  "torrent_downloader \<Rightarrow> string \<Rightarrow> nat \<Rightarrow> torrent_info \<Rightarrow> tick list
     \<Rightarrow> torrent_downloader \<times> message list \<times> monitor_exit" where
  "download_phase m torrent_id handle info [] = (m, [], Still_polling)"
| "download_phase m torrent_id handle info (t # ts) =
     (if is_seed t then
        (let final_name = info_name info;
             save_path = path_join (download_dir m) final_name
         in (m, [Finished_torrent save_path final_name,
                 Completed torrent_id save_path final_name], Seeded))
      else if cancel_is_set t then
        (m\<lparr>session := removeAll handle (session m),
           handles := (handles m)(torrent_id := None)\<rparr>, [Cancelled], Cancelled_downloading)
      else case download_phase m torrent_id handle info ts of
        (m', ms, x) \<Rightarrow> (m', downloading_msg (tick_status t) # ms, x))"

text \<open>The metadata loop of \<open>_monitor\<close>, with its counter \<open>attempts\<close>.\<close>

fun metadata_phase ::
  "torrent_downloader \<Rightarrow> string \<Rightarrow> nat \<Rightarrow> torrent_info \<Rightarrow> nat \<Rightarrow> tick list
     \<Rightarrow> torrent_downloader \<times> message list \<times> monitor_exit" where
  "metadata_phase m torrent_id handle info attempts [] = (m, [], Still_polling)"
| "metadata_phase m torrent_id handle info attempts (t # ts) =
     (if has_metadata t then
        (case download_phase m torrent_id handle info (t # ts) of
           (m', ms, x) \<Rightarrow>
             (m', Metadata (info_name info) (total_size info) (num_files info) # ms, x))
      else if cancel_is_set t then (m, [Cancelled], Cancelled_fetching)
      else
        (let attempts' = attempts + 1;
             m1 = (if attempts' mod 10 = 0 then m\<lparr>announced := announced m @ [handle]\<rparr> else m)
         in case metadata_phase m1 torrent_id handle info attempts' ts of
              (m', ms, x) \<Rightarrow>
                (m', Fetching_metadata (num_peers (tick_status t)) # ms, x)))"

definition monitor ::
  "torrent_downloader \<Rightarrow> string \<Rightarrow> nat \<Rightarrow> torrent_info \<Rightarrow> tick list
     \<Rightarrow> torrent_downloader \<times> message list \<times> monitor_exit" where
  "monitor m torrent_id handle info ticks = metadata_phase m torrent_id handle info 0 ticks"

text \<open>
  \<open>cancel_torrent\<close> sets the token when there is one and answers
  \<open>{"status": "cancelling"}\<close> either way; \<open>get_status\<close> answers
  \<open>{"error": "not found"}\<close> for an identifier that is not a key of \<open>handles\<close>.
\<close>

definition cancel_torrent :: "torrent_downloader \<Rightarrow> string \<Rightarrow> string \<times> torrent_downloader" where
  "cancel_torrent m torrent_id =
     (''cancelling'',
      if torrent_id \<in> dom (cancel_events m)
      then m\<lparr>cancel_events := (cancel_events m)(torrent_id \<mapsto> True)\<rparr> else m)"

definition get_status ::
  "torrent_downloader \<Rightarrow> (nat \<Rightarrow> torrent_status) \<Rightarrow> string \<Rightarrow> string + (rat \<times> int \<times> int)" where
  "get_status m status_of_handle torrent_id =
     (case handles m torrent_id of
        None \<Rightarrow> Inl ''not found''
      | Some h \<Rightarrow>
          (let st = status_of_handle h
           in Inr (py_round2 (progress st * 100), download_rate st, num_peers st)))"

section \<open>main.py: registry, routes, watcher and torrent callback\<close>

text \<open>
  \<open>JobManager\<close>: the dictionary \<open>_jobs\<close> from identifier to the worker thread and its
  cancellation token. Tokens are \<open>threading.Event\<close> objects shared between the registry
  and the worker's closure, so a job holds the token's address and the flags live in
  \<open>event_set\<close> below. Every method runs under the manager's lock, that is, atomically.
\<close>

record job =
  thread :: nat
  cancel_event :: nat

type_synonym job_manager = "string \<rightharpoonup> job"

definition register :: "job_manager \<Rightarrow> string \<Rightarrow> nat \<Rightarrow> nat \<Rightarrow> job_manager" where
  "register js i t ev = js(i \<mapsto> \<lparr>thread = t, cancel_event = ev\<rparr>)"

definition get_cancel_event :: "job_manager \<Rightarrow> string \<Rightarrow> nat option" where
  "get_cancel_event js i = (case js i of None \<Rightarrow> None | Some item \<Rightarrow> Some (cancel_event item))"

definition unregister :: "job_manager \<Rightarrow> string \<Rightarrow> job_manager" where
  "unregister js i = js(i := None)"

definition is_running :: "job_manager \<Rightarrow> string \<Rightarrow> bool" where
  "is_running js i = (i \<in> dom js)"

text \<open>
  A started media worker: the arguments \<open>run_download_in_thread\<close> was called with and
  the channel (\<open>client_id\<close>) its \<open>progress_sender\<close> reports to.
\<close>

record worker =
  w_id :: string
  w_url :: string
  w_dir :: string
  w_mode :: string
  w_format :: string
  w_cancel :: nat

text \<open>
  A call of \<open>add_history_entry\<close> (module \<open>db\<close>, the history collaborator): the
  dictionary passed. \<open>history\<close> below is the log of these calls.
\<close>

record history_entry =
  h_id :: string
  h_url :: string
  h_filename :: "string option"
  h_mode :: string
  h_status :: string

text \<open>
  The process state: the media registry, the token flags and how many tokens were
  created, the media worker threads started, the log of history calls, the log of
  \<open>ws_manager.send\<close> calls (channel key and message, in order; whether a subscriber is
  attached does not matter to the sender), the global torrent manager (created on first
  use), and the two download directories.
\<close>

record backend =
  jobs :: job_manager
  event_set :: "nat \<Rightarrow> bool"
  events_made :: nat
  threads :: "worker list"
  history :: "history_entry list"
  sent :: "(string \<times> message) list"
  torrent_manager :: "torrent_downloader option"
  default_dl_dir :: string
  torrent_dl_dir :: string

definition startup :: "string \<Rightarrow> string \<Rightarrow> backend" where
  "startup dl_dir torrent_dir =
     \<lparr>jobs = Map.empty, event_set = (\<lambda>_. False), events_made = 0, threads = [], history = [],
      sent = [], torrent_manager = None, default_dl_dir = dl_dir, torrent_dl_dir = torrent_dir\<rparr>"

datatype response = Json_ok string string | Json_error nat string

text \<open>
  \<open>start_download\<close>. The handler has no suspension point, so the check
  \<open>is_running\<close> and the later \<open>register\<close> are one step of the event loop. On success a
  fresh token is created, the worker thread is started and registered, and its watcher
  is started.
\<close>

definition start_download :: "(string \<Rightarrow> int) \<Rightarrow> backend \<Rightarrow> payload \<Rightarrow> response \<times> backend" where
  "start_download hash b p =
     (if falsy (p ''url'') then (Json_error 400 ''url required'', b)
      else
        (let url = the (p ''url'');
             client_id = request_id hash p url;
             mode = get_default p ''mode'' ''video'';
             format_id = get_default p ''format_id'' ''best''
         in if is_running (jobs b) client_id then (Json_error 400 ''job already running'', b)
            else
              (let ev = events_made b;
                   th = length (threads b);
                   w = \<lparr>w_id = client_id, w_url = url, w_dir = default_dl_dir b, w_mode = mode,
                        w_format = format_id, w_cancel = ev\<rparr>
               in (Json_ok client_id ''started'',
                   b\<lparr>event_set := (event_set b)(ev := False),
                     events_made := ev + 1,
                     threads := threads b @ [w],
                     jobs := register (jobs b) client_id th ev\<rparr>))))"

text \<open>
  \<open>progress_sender\<close> forwards one worker message to the job's channel (a failed or
  timed-out delivery is swallowed). \<open>worker_thread\<close> is the body of the thread started
  by \<open>run_download_in_thread\<close>: \<open>download_task\<close> with \<open>progress_sender\<close> as callback.
\<close>

definition progress_sender :: "string \<Rightarrow> backend \<Rightarrow> message \<Rightarrow> backend" where
  "progress_sender client_id b msg = b\<lparr>sent := sent b @ [(client_id, msg)]\<rparr>"

definition worker_thread :: "backend \<Rightarrow> worker \<Rightarrow> media_engine \<Rightarrow> backend" where
  "worker_thread b w eng =
     foldl (progress_sender (w_id w)) b (download_task (w_dir w) (w_mode w) eng)"

text \<open>
  \<open>start_download.watcher\<close>, after \<open>thread.join()\<close> has returned: \<open>final_name\<close> is
  the result of the directory scan (the newest media file, or \<open>None\<close>). The watcher has
  no access to how the worker ended; it adds the history entry, unregisters the job and
  sends its own \<open>finished\<close> message in every case.
\<close>

definition watcher :: "backend \<Rightarrow> worker \<Rightarrow> string option \<Rightarrow> backend" where
  "watcher b w final_name =
     b\<lparr>history := history b @
          [\<lparr>h_id = w_id w, h_url = w_url w, h_filename = final_name, h_mode = w_mode w,
            h_status = ''completed''\<rparr>],
       jobs := unregister (jobs b) (w_id w),
       sent := sent b @ [(w_id w, Watcher_finished final_name)]\<rparr>"

text \<open>The whole life of a started media job: the worker thread, then its watcher.\<close>

definition media_job :: "backend \<Rightarrow> worker \<Rightarrow> media_engine \<Rightarrow> string option \<Rightarrow> backend" where
  "media_job b w eng final_name = watcher (worker_thread b w eng) w final_name"

text \<open>\<open>cancel_download\<close>: sets the token of a registered job and returns at once.\<close>

definition cancel_download :: "backend \<Rightarrow> payload \<Rightarrow> response \<times> backend" where
  "cancel_download b p =
     (if falsy (p ''id'') then (Json_error 400 ''id required'', b)
      else
        (let i = the (p ''id'') in
         case get_cancel_event (jobs b) i of
           Some ev \<Rightarrow> (Json_ok i ''cancelling'', b\<lparr>event_set := (event_set b)(ev := True)\<rparr>)
         | None \<Rightarrow> (Json_error 404 ''not found'', b)))"

text \<open>\<open>get_torrent_manager\<close>: the global instance, created on first use.\<close>

definition get_torrent_manager :: "backend \<Rightarrow> torrent_downloader \<times> backend" where
  "get_torrent_manager b =
     (case torrent_manager b of
        Some m \<Rightarrow> (m, b)
      | None \<Rightarrow>
          (let m = TorrentDownloader (torrent_dl_dir b)
           in (m, b\<lparr>torrent_manager := Some m\<rparr>)))"

text \<open>
  \<open>add_torrent.torrent_progress_callback\<close>: forwards the monitor's message to the
  channel \<open>torrent_<id>\<close>; on a message with status \<open>finished\<close> it also adds the
  history entry and sends the toast message.
\<close>

definition torrent_progress_callback :: "string \<Rightarrow> string \<Rightarrow> backend \<Rightarrow> message \<Rightarrow> backend" where
  "torrent_progress_callback torrent_id magnet_link b msg =
     (let b1 = b\<lparr>sent := sent b @ [(''torrent_'' @ torrent_id, msg)]\<rparr>
      in if status_of msg = Some ''finished'' then
           (let save_path = save_path_of msg
            in b1\<lparr>history := history b1 @
                     [\<lparr>h_id = torrent_id, h_url = magnet_link,
                       h_filename = Some (if save_path \<noteq> [] then path_name save_path else []),
                       h_mode = ''torrent'', h_status = ''completed''\<rparr>],
                   sent := sent b1 @
                     [(''torrent_'' @ torrent_id, Torrent_completed torrent_id save_path)]\<rparr>)
         else b1)"

text \<open>
  The torrent route \<open>main.add_torrent\<close>: an exception of the manager's \<open>add_torrent\<close>
  becomes a 500 response. (The route's retry with swapped arguments on a \<open>TypeError\<close> is
  for managers with another signature; the engine's exceptions are plain texts here.)
\<close>

definition main_add_torrent ::
  "(string \<Rightarrow> int) \<Rightarrow> lt_engine \<Rightarrow> backend \<Rightarrow> payload \<Rightarrow> response \<times> backend" where
  "main_add_torrent hash lt b p =
     (if falsy (p ''magnet'') then (Json_error 400 ''magnet link required'', b)
      else
        (let magnet_link = the (p ''magnet'');
             torrent_id = request_id hash p magnet_link
         in case get_torrent_manager b of
              (manager, b1) \<Rightarrow>
                (case add_torrent lt manager torrent_id magnet_link of
                   Inl e \<Rightarrow> (Json_error 500 e, b1)
                 | Inr manager' \<Rightarrow>
                     (Json_ok torrent_id ''started'', b1\<lparr>torrent_manager := Some manager'\<rparr>))))"

text \<open>
  The body of a monitor thread started through the route: \<open>_monitor\<close> on the global
  manager with \<open>torrent_progress_callback\<close> as callback.
\<close>

definition monitor_thread ::
  "backend \<Rightarrow> string \<Rightarrow> string \<Rightarrow> nat \<Rightarrow> torrent_info \<Rightarrow> tick list \<Rightarrow> backend" where
  "monitor_thread b torrent_id magnet_link handle info ticks =
     (case get_torrent_manager b of
        (manager, b1) \<Rightarrow>
          (case monitor manager torrent_id handle info ticks of
             (manager', ms, x) \<Rightarrow>
               foldl (torrent_progress_callback torrent_id magnet_link)
                 (b1\<lparr>torrent_manager := Some manager'\<rparr>) ms))"

text \<open>\<open>cancel_torrent_download\<close>: answers \<open>cancelling\<close> whatever the manager did.\<close>

definition cancel_torrent_download :: "backend \<Rightarrow> payload \<Rightarrow> response \<times> backend" where
  "cancel_torrent_download b p =
     (if falsy (p ''id'') then (Json_error 400 ''id required'', b)
      else
        (let torrent_id = the (p ''id'') in
         case get_torrent_manager b of
           (manager, b1) \<Rightarrow>
             (case cancel_torrent manager torrent_id of
                (_, manager') \<Rightarrow>
                  (Json_ok torrent_id ''cancelling'', b1\<lparr>torrent_manager := Some manager'\<rparr>))))"

text \<open>The messages sent on one channel, in order.\<close>

definition channel :: "backend \<Rightarrow> string \<Rightarrow> message list" where
  "channel b key = map snd (filter (\<lambda>km. fst km = key) (sent b))"

section \<open>Reading the messages of a run\<close>

text \<open>
  The messages with which a run of the monitor ends, by exit: nothing while it is
  still polling, \<open>cancelled\<close> at either cancellation return, and \<open>finished\<close> followed
  by the \<open>completed\<close> event after the download loop.
\<close>

fun closing :: "torrent_downloader \<Rightarrow> string \<Rightarrow> torrent_info \<Rightarrow> monitor_exit \<Rightarrow> message list" where
  "closing m torrent_id info Still_polling = []"
| "closing m torrent_id info Cancelled_fetching = [Cancelled]"
| "closing m torrent_id info Cancelled_downloading = [Cancelled]"
| "closing m torrent_id info Seeded =
     [Finished_torrent (path_join (download_dir m) (info_name info)) (info_name info),
      Completed torrent_id (path_join (download_dir m) (info_name info)) (info_name info)]"

text \<open>The \<open>progress\<close> fields of the torrent \<open>downloading\<close> messages of a run, in order.\<close>

fun progress_values :: "message list \<Rightarrow> rat list" where
  "progress_values [] = []"
| "progress_values (Downloading_torrent p _ _ _ _ _ _ # ms) = p # progress_values ms"
| "progress_values (_ # ms) = progress_values ms"

text \<open>The torrent \<open>downloading\<close> messages.\<close>

fun is_downloading :: "message \<Rightarrow> bool" where
  "is_downloading (Downloading_torrent _ _ _ _ _ _ _) = True"
| "is_downloading _ = False"

text \<open>
  The polls of a run at which the download loop reaches \<open>handle.status()\<close>. The
  metadata loop ends at the first poll that reads metadata or, without metadata, the
  token set; if it reads metadata, the download loop starts at that poll and reads the
  status at every poll before the first one that reads \<open>is_seed\<close> or the token set.
\<close>

definition download_polls :: "tick list \<Rightarrow> tick list" where
  "download_polls ticks =
     (case dropWhile (\<lambda>t. \<not> has_metadata t \<and> \<not> cancel_is_set t) ticks of
        [] \<Rightarrow> []
      | t # rest \<Rightarrow>
          if has_metadata t
          then takeWhile (\<lambda>t. \<not> is_seed t \<and> \<not> cancel_is_set t) (t # rest)
          else [])"

section \<open>Sample runs\<close>

text \<open>
  Concrete engines, requests and polls on which the definitions above are run: an
  engine that accepts a magnet URI with a 40-digit hexadecimal info-hash and hands out a
  new handle each time, two
  requests for the torrent identifier \<open>t1\<close>, a media job \<open>m1\<close> with three engines (one
  cancelled at the third progress tick, one cancelled right after extraction, one
  that completes), polls of a torrent (one run that ends seeding, one cancelled while
  downloading, one in which the engine's progress drops, one with three polls of the
  download loop, one with progress readings outside [0, 1]), two torrent statuses and
  two hook calls of the media engine.
\<close>

definition sample_lt :: lt_engine where
  "sample_lt =
     \<lparr>parse_magnet_uri =
        (\<lambda>u. if take 20 u = ''magnet:?xt=urn:btih:'' \<and> length (drop 20 u) = 40
                 \<and> list_all (\<lambda>c. c \<in> set ''0123456789abcdef'') (drop 20 u)
              then Inr u else Inl ''invalid magnet URI''),
      session_add_torrent = (\<lambda>sess params. Inr (length sess))\<rparr>"

definition add_t1 :: payload where
  "add_t1 = [''magnet'' \<mapsto> ''magnet:?xt=urn:btih:aaaaaaaaaaaaaaaaaaaaaaaaaaaaaaaaaaaaaaaa'', ''id'' \<mapsto> ''t1'']"

definition add_t1_again :: payload where
  "add_t1_again = [''magnet'' \<mapsto> ''magnet:?xt=urn:btih:bbbbbbbbbbbbbbbbbbbbbbbbbbbbbbbbbbbbbbbb'', ''id'' \<mapsto> ''t1'']"

definition t1_added :: backend where
  "t1_added = snd (main_add_torrent sample_hash sample_lt (startup ''/dl'' ''/dl/Torrents'') add_t1)"

definition t1_cancel_requested :: backend where
  "t1_cancel_requested = snd (cancel_torrent_download t1_added [''id'' \<mapsto> ''t1''])"

definition t1_added_twice :: backend where
  "t1_added_twice = snd (main_add_torrent sample_hash sample_lt t1_cancel_requested add_t1_again)"

definition start_m1 :: payload where
  "start_m1 = [''url'' \<mapsto> ''http://v/1'', ''id'' \<mapsto> ''m1'']"

definition m1_started :: backend where
  "m1_started = snd (start_download sample_hash (startup ''/dl'' ''/dl/Torrents'') start_m1)"

definition m1_worker :: worker where
  "m1_worker = \<lparr>w_id = ''m1'', w_url = ''http://v/1'', w_dir = ''/dl'', w_mode = ''video'',
                 w_format = ''best'', w_cancel = 0\<rparr>"

definition downloading_d :: "rat \<Rightarrow> string \<rightharpoonup> py_val" where
  "downloading_d n =
     [''status'' \<mapsto> PStr ''downloading'', ''downloaded_bytes'' \<mapsto> PNum n,
      ''total_bytes'' \<mapsto> PNum 4096, ''speed'' \<mapsto> PNum 1024, ''eta'' \<mapsto> PNum 3]"

definition cancelled_mid_download :: media_engine where
  "cancelled_mid_download =
     \<lparr>extract_info = Inr \<lparr>info_title = Some ''clip'', info_ext = Some ''webm''\<rparr>,
      cancel_after_extract = False,
      prepare_filename = Inr ''/dl/clip.webm'',
      hook_calls = [\<lparr>cancel_set = False, hook_d = downloading_d 1024\<rparr>,
                    \<lparr>cancel_set = False, hook_d = downloading_d 2048\<rparr>,
                    \<lparr>cancel_set = True, hook_d = downloading_d 3072\<rparr>],
      download_raises = None\<rparr>"

definition cancelled_at_extraction :: media_engine where
  "cancelled_at_extraction = cancelled_mid_download\<lparr>cancel_after_extract := True\<rparr>"

definition completes :: media_engine where
  "completes =
     cancelled_mid_download
       \<lparr>hook_calls := [\<lparr>cancel_set = False, hook_d = downloading_d 4096\<rparr>,
                       \<lparr>cancel_set = False, hook_d = [''status'' \<mapsto> PStr ''finished'']\<rparr>]\<rparr>"

definition sample_status :: "rat \<Rightarrow> int \<Rightarrow> int \<Rightarrow> torrent_status" where
  "sample_status p rate done_bytes =
     \<lparr>num_peers = 8, download_rate = rate, upload_rate = 0, num_seeds = 3, total_wanted = 1000,
      total_wanted_done = done_bytes, progress = p, state = ''downloading''\<rparr>"

definition poll :: "bool \<Rightarrow> bool \<Rightarrow> bool \<Rightarrow> torrent_status \<Rightarrow> tick" where
  "poll md seed cancel st =
     \<lparr>has_metadata = md, is_seed = seed, cancel_is_set = cancel, tick_status = st\<rparr>"

definition t1_info :: torrent_info where
  "t1_info = \<lparr>info_name = ''iso'', total_size = 1000, num_files = 1\<rparr>"

definition polls_to_seed :: "tick list" where
  "polls_to_seed =
     [poll False False False (sample_status 0 0 0),
      poll True False False (sample_status (1 / 2) 250 500),
      poll True True False (sample_status 1 0 1000)]"

definition polls_regressing :: "tick list" where
  "polls_regressing =
     [poll True False False (sample_status (1 / 2) 250 500),
      poll True False False (sample_status (2 / 5) 250 400)]"

definition t1_manager :: torrent_downloader where
  "t1_manager = the (torrent_manager t1_added)"

definition polls_cancelled_downloading :: "tick list" where
  "polls_cancelled_downloading =
     [poll False False False (sample_status 0 0 0),
      poll True False False (sample_status (1 / 2) 250 500),
      poll True False True (sample_status (3 / 5) 250 600)]"

definition polls_three_downloads :: "tick list" where
  "polls_three_downloads =
     [poll False False False (sample_status 0 0 0),
      poll True False False (sample_status (3 / 10) 100 300),
      poll True False False (sample_status (1 / 2) 250 500),
      poll True False False (sample_status (4 / 5) 0 800),
      poll True True False (sample_status 1 0 1000)]"

definition polls_out_of_range :: "tick list" where
  "polls_out_of_range =
     [poll True False False (sample_status (3 / 2) 250 500),
      poll True False False (sample_status (- 1 / 4) 250 500)]"




definition first_hook_call :: hook_call where
  "first_hook_call =
     \<lparr>cancel_set = False,
      hook_d = [''status'' \<mapsto> PStr ''downloading'', ''downloaded_bytes'' \<mapsto> PNum 0,
                ''total_bytes'' \<mapsto> PNone, ''speed'' \<mapsto> PNone, ''eta'' \<mapsto> PNone]\<rparr>"


section \<open>Identifier derivation\<close>

lemma digit_char_is_digit: "n < 10 \<Longrightarrow> is_digit (digit_char n)"
  unfolding is_digit_def digit_char_def by (rule nth_mem) simp

lemma str_nat_digits: "list_all is_digit (str_nat n)"
proof (induction n rule: str_nat.induct)
  case (1 n)
  show ?case
  proof (cases "n < 10")
    case True
    then show ?thesis
      by (subst str_nat.simps) (simp add: digit_char_is_digit)
  next
    case False
    with 1 have "list_all is_digit (str_nat (n div 10))" by simp
    moreover have "is_digit (digit_char (n mod 10))"
      by (rule digit_char_is_digit) simp
    ultimately show ?thesis using False
      by (subst str_nat.simps) simp
  qed
qed

lemma str_nat_nonempty: "str_nat n \<noteq> []"
  by (subst str_nat.simps) simp

lemma safe_hash_id_shape:
  "length (safe_hash_id hash s) \<le> 12 \<and> safe_hash_id hash s \<noteq> []
   \<and> list_all is_digit (safe_hash_id hash s)"
proof -
  have nn: "\<not> \<bar>hash s\<bar> < 0" by simp
  have eq: "safe_hash_id hash s = take 12 (str_nat (nat \<bar>hash s\<bar>))"
    unfolding safe_hash_id_def py_str_int_def using nn by simp
  have "list_all is_digit (take 12 (str_nat (nat \<bar>hash s\<bar>)))"
    using str_nat_digits [of "nat \<bar>hash s\<bar>"]
    by (auto simp: list_all_iff dest: in_set_takeD)
  then show ?thesis
    unfolding eq using str_nat_nonempty [of "nat \<bar>hash s\<bar>"] by simp
qed

text \<open>
  Claim C10. Within one process run (one fixed \<open>hash\<close>), two creation requests
  that carry no explicit id and the same source (URL or magnet URI) get the same
  identifier, namely \<open>safe_hash_id\<close> of the source, and that identifier is a
  non-empty string of at most 12 decimal digits.
\<close>

theorem request_id_deterministic:
  assumes "falsy (p1 ''id'')" and "falsy (p2 ''id'')"
  shows "request_id hash p1 source = request_id hash p2 source
       \<and> request_id hash p1 source = safe_hash_id hash source
       \<and> length (request_id hash p1 source) \<le> 12
       \<and> request_id hash p1 source \<noteq> []
       \<and> list_all is_digit (request_id hash p1 source)"
  using assms safe_hash_id_shape [of hash source] by (simp add: request_id_def)

theorem request_id_deterministic_witness:
  "falsy ((Map.empty(''url'' \<mapsto> ''http://a'')) ''id'')
   \<and> falsy ((Map.empty(''url'' \<mapsto> ''http://a'', ''id'' \<mapsto> '''')) ''id'')
   \<and> request_id sample_hash (Map.empty(''url'' \<mapsto> ''http://a'')) ''http://a''
       = request_id sample_hash (Map.empty(''url'' \<mapsto> ''http://a'', ''id'' \<mapsto> '''')) ''http://a''
   \<and> request_id sample_hash (Map.empty(''url'' \<mapsto> ''http://a'')) ''http://a'' = ''987654312098''"
proof -
  have f1: "falsy ((Map.empty(''url'' \<mapsto> ''http://a'')) ''id'')"
    by (simp add: falsy_def)
  have f2: "falsy ((Map.empty(''url'' \<mapsto> ''http://a'', ''id'' \<mapsto> '''')) ''id'')"
    by (simp add: falsy_def)
  have v: "safe_hash_id sample_hash ''http://a'' = ''987654312098''"
    by (simp add: safe_hash_id_def sample_hash_def py_str_int_def str_nat.simps digit_char_def)
  note th = request_id_deterministic
      [of "Map.empty(''url'' \<mapsto> ''http://a'')"
          "Map.empty(''url'' \<mapsto> ''http://a'', ''id'' \<mapsto> '''')"
          sample_hash "''http://a''", OF f1 f2]
  have a: "request_id sample_hash (Map.empty(''url'' \<mapsto> ''http://a'')) ''http://a''
       = request_id sample_hash (Map.empty(''url'' \<mapsto> ''http://a'', ''id'' \<mapsto> '''')) ''http://a''"
    using th by (rule conjunct1)
  have b: "request_id sample_hash (Map.empty(''url'' \<mapsto> ''http://a'')) ''http://a''
       = safe_hash_id sample_hash ''http://a''"
    using th by (elim conjE)
  show ?thesis
    by (intro conjI f1 f2 a) (rule trans [OF b v])
qed

section \<open>The media worker's messages\<close>

lemma dropWhile_first_hit:
  "list_all (\<lambda>m. \<not> P m) pre \<Longrightarrow> P t \<Longrightarrow> dropWhile (\<lambda>m. \<not> P m) (pre @ t # rest) = t # rest"
  by (induction pre) auto

lemma filter_none: "list_all (\<lambda>m. \<not> P m) pre \<Longrightarrow> filter P pre = []"
  by (induction pre) auto

lemma progress_hook_not_terminal:
  "progress_hook c = Inr ms \<Longrightarrow> list_all (\<lambda>m. \<not> terminal m) ms"
  by (auto simp: progress_hook_def terminal_def Let_def split: if_splits option.splits)

lemma ydl_download_not_terminal:
  "ydl_download cs raises = (ms, r) \<Longrightarrow> list_all (\<lambda>m. \<not> terminal m) ms"
proof (induction cs arbitrary: ms r)
  case Nil
  then show ?case by simp
next
  case (Cons c cs)
  show ?case
  proof (cases "progress_hook c")
    case (Inl e)
    with Cons.prems show ?thesis by simp
  next
    case (Inr ms0)
    obtain ms1 r1 where rest: "ydl_download cs raises = (ms1, r1)"
      by (cases "ydl_download cs raises") auto
    from Cons.prems Inr rest have "ms = ms0 @ ms1" by simp
    moreover have "list_all (\<lambda>m. \<not> terminal m) ms0"
      using Inr by (rule progress_hook_not_terminal)
    moreover have "list_all (\<lambda>m. \<not> terminal m) ms1"
      using rest by (rule Cons.IH)
    ultimately show ?thesis by simp
  qed
qed

lemma download_task_shape:
  "\<exists>pre t. download_task dir mode eng = pre @ [t]
     \<and> list_all (\<lambda>m. \<not> terminal m) pre \<and> terminal t"
proof -
  have nil: "list_all (\<lambda>m. \<not> terminal m) []" by simp
  show ?thesis
  proof (cases "extract_info eng")
  case (Inl e)
  then have "download_task dir mode eng = [] @ [Error e]"
    by (simp add: download_task_def)
  moreover have "terminal (Error e)" by (simp add: terminal_def)
  ultimately show ?thesis using nil by blast
next
  case (Inr info)
  show ?thesis
  proof (cases "cancel_after_extract eng")
    case True
    with Inr have "download_task dir mode eng = [] @ [Cancelled]"
      by (simp add: download_task_def)
    moreover have "terminal Cancelled" by (simp add: terminal_def)
    ultimately show ?thesis using nil by blast
  next
    case False
    show ?thesis
    proof (cases "prepare_filename eng")
      case (Inl e)
      with Inr False have "download_task dir mode eng = [] @ [Error e]"
        by (simp add: download_task_def)
      moreover have "terminal (Error e)" by (simp add: terminal_def)
      ultimately show ?thesis using nil by blast
    next
      case prep: (Inr prepared)
      obtain ms r where dl: "ydl_download (hook_calls eng) (download_raises eng) = (ms, r)"
        by (cases "ydl_download (hook_calls eng) (download_raises eng)") auto
      have nt: "list_all (\<lambda>m. \<not> terminal m) ms"
        using dl by (rule ydl_download_not_terminal)
      show ?thesis
      proof (cases r)
        case None
        with Inr False prep dl obtain fp fn where
          "download_task dir mode eng = ms @ [Finished_media fp fn]"
          by (simp add: download_task_def Let_def)
        moreover have "terminal (Finished_media fp fn)" by (simp add: terminal_def)
        ultimately show ?thesis using nt by blast
      next
        case (Some e)
        with Inr False prep dl have "download_task dir mode eng = ms @ [Error e]"
          by (simp add: download_task_def Let_def)
        moreover have "terminal (Error e)" by (simp add: terminal_def)
        ultimately show ?thesis using nt by blast
      qed
    qed
  qed
qed
qed

lemma download_task_one_terminal:
  "dropWhile (\<lambda>m. \<not> terminal m) (download_task dir mode eng) = [last (download_task dir mode eng)]
   \<and> terminal (last (download_task dir mode eng))
   \<and> length (filter terminal (download_task dir mode eng)) = 1"
proof -
  obtain pre t where sh: "download_task dir mode eng = pre @ [t]"
    and nt: "list_all (\<lambda>m. \<not> terminal m) pre" and tt: "terminal t"
    using download_task_shape by blast
  have "dropWhile (\<lambda>m. \<not> terminal m) (pre @ t # []) = [t]"
    using nt tt by (rule dropWhile_first_hit)
  moreover have "filter terminal (pre @ [t]) = [t]"
    using nt tt by (simp add: filter_none)
  ultimately show ?thesis using tt by (simp add: sh)
qed

section \<open>The torrent monitor's messages and state\<close>

lemma downloading_msg_not_terminal [simp]: "\<not> terminal (downloading_msg st)"
  by (simp add: downloading_msg_def terminal_def)

lemma download_phase_closing:
  "download_phase m tid h info ts = (m', ms, x)
   \<Longrightarrow> dropWhile (\<lambda>m. \<not> terminal m) ms = closing m tid info x \<and> x \<noteq> Cancelled_fetching"
  by (induction ts arbitrary: m' ms x)
     (auto simp: terminal_def downloading_msg_def Let_def split: if_splits prod.splits)



lemma metadata_phase_closing:
  "metadata_phase m tid h info n ts = (m', ms, x)
   \<Longrightarrow> dropWhile (\<lambda>m. \<not> terminal m) ms = closing m tid info x"
proof (induction ts arbitrary: m n m' ms x)
  case Nil
  then show ?case by simp
next
  case (Cons t ts)
  show ?case
  proof (cases "has_metadata t")
    case True
    obtain m1 ms1 x1 where d: "download_phase m tid h info (t # ts) = (m1, ms1, x1)"
      by (cases "download_phase m tid h info (t # ts)") auto
    from Cons.prems True d
    have "ms = Metadata (info_name info) (total_size info) (num_files info) # ms1" "x = x1"
      by simp_all
    then show ?thesis using download_phase_closing [OF d] by (simp add: terminal_def)
  next
    case False
    show ?thesis
    proof (cases "cancel_is_set t")
      case True
      with Cons.prems False show ?thesis by (auto simp: terminal_def)
    next
      case nc: False
      obtain m1 ms1 x1 where r:
        "metadata_phase (if Suc n mod 10 = 0 then m\<lparr>announced := announced m @ [h]\<rparr> else m)
           tid h info (Suc n) ts = (m1, ms1, x1)"
        by (cases "metadata_phase (if Suc n mod 10 = 0 then m\<lparr>announced := announced m @ [h]\<rparr> else m)
           tid h info (Suc n) ts") auto
      from Cons.prems False nc r
      have eq: "ms = Fetching_metadata (num_peers (tick_status t)) # ms1" "x = x1"
        by (simp_all add: Let_def)
      have "dropWhile (\<lambda>m. \<not> terminal m) ms1
            = closing (if Suc n mod 10 = 0 then m\<lparr>announced := announced m @ [h]\<rparr> else m) tid info x1"
        using r by (rule Cons.IH)
      also have "\<dots> = closing m tid info x1"
        by (cases x1) simp_all
      finally show ?thesis using eq by (simp add: terminal_def)
    qed
  qed
qed



section \<open>Rounding and the torrent ETA\<close>

lemma round_half_even_bounds:
  "of_int (round_half_even x) \<le> x + 1 / 2 \<and> x - 1 / 2 \<le> of_int (round_half_even x)"
  unfolding round_half_even_def Let_def
  by (auto simp: not_less) linarith+

lemma round_half_even_mono:
  assumes "x \<le> y"
  shows "round_half_even x \<le> round_half_even y"
proof (cases "\<lfloor>x\<rfloor> = \<lfloor>y\<rfloor>")
  case True
  have "x - of_int \<lfloor>x\<rfloor> \<le> y - of_int \<lfloor>y\<rfloor>" using assms True by simp
  then show ?thesis
    unfolding round_half_even_def Let_def using True by auto
next
  case False
  have "\<lfloor>x\<rfloor> \<le> \<lfloor>y\<rfloor>" using assms by (rule floor_mono)
  with False have lt: "\<lfloor>x\<rfloor> + 1 \<le> \<lfloor>y\<rfloor>" by simp
  have "round_half_even x \<le> \<lfloor>x\<rfloor> + 1"
    unfolding round_half_even_def Let_def by auto
  moreover have "\<lfloor>y\<rfloor> \<le> round_half_even y"
    unfolding round_half_even_def Let_def by auto
  ultimately show ?thesis using lt by linarith
qed

lemma py_round2_mono: "x \<le> y \<Longrightarrow> py_round2 x \<le> py_round2 y"
  unfolding py_round2_def
  by (simp add: round_half_even_mono divide_right_mono)

lemma round_half_even_of_int: "round_half_even (of_int k) = k"
  unfolding round_half_even_def Let_def by simp

lemma py_round2_percent_le: 
  assumes "p \<le> 1" shows "py_round2 (p * 100) \<le> 100"
proof -
  have "py_round2 (p * 100) \<le> py_round2 100"
    using assms by (intro py_round2_mono) simp
  also have "py_round2 100 = 100"
    using round_half_even_of_int [of 10000] by (simp add: py_round2_def)
  finally show ?thesis .
qed










section \<open>Channels and history\<close>

lemma list_all_takeWhile: "list_all P (takeWhile P xs)"
  by (induction xs) simp_all

lemma sent_foldl_progress_sender:
  "sent (foldl (progress_sender key) b ms) = sent b @ map (\<lambda>m. (key, m)) ms"
  by (induction ms arbitrary: b) (simp_all add: progress_sender_def)

lemma jobs_foldl_progress_sender:
  "jobs (foldl (progress_sender key) b ms) = jobs b"
  by (induction ms arbitrary: b) (simp_all add: progress_sender_def)

lemma history_foldl_progress_sender:
  "history (foldl (progress_sender key) b ms) = history b"
  by (induction ms arbitrary: b) (simp_all add: progress_sender_def)

lemma channel_media_job:
  "channel (media_job b w eng final_name) (w_id w)
     = channel b (w_id w) @ download_task (w_dir w) (w_mode w) eng @ [Watcher_finished final_name]"
  by (simp add: channel_def media_job_def watcher_def worker_thread_def
        sent_foldl_progress_sender filter_map comp_def)

lemma history_media_job:
  "history (media_job b w eng final_name)
     = history b @ [\<lparr>h_id = w_id w, h_url = w_url w, h_filename = final_name, h_mode = w_mode w,
                     h_status = ''completed''\<rparr>]"
  by (simp add: media_job_def watcher_def worker_thread_def history_foldl_progress_sender)

lemma sent_foldl_callback:
  assumes "key = ''torrent_'' @ tid"
  shows "sent (foldl (torrent_progress_callback tid mag) b ms)
     = sent b @ concat (map (\<lambda>msg. (key, msg) #
           (if status_of msg = Some ''finished''
            then [(key, Torrent_completed tid (save_path_of msg))] else [])) ms)"
  unfolding assms
  by (induction ms arbitrary: b) (simp_all add: torrent_progress_callback_def Let_def)

lemma history_foldl_callback:
  "history (foldl (torrent_progress_callback tid mag) b ms)
     = history b @ concat (map (\<lambda>msg.
           if status_of msg = Some ''finished''
           then [\<lparr>h_id = tid, h_url = mag,
                  h_filename = Some (if save_path_of msg \<noteq> [] then path_name (save_path_of msg) else []),
                  h_mode = ''torrent'', h_status = ''completed''\<rparr>]
           else []) ms)"
  by (induction ms arbitrary: b) (simp_all add: torrent_progress_callback_def Let_def)

lemma concat_not_finished:
  "list_all (\<lambda>m. \<not> terminal m) pre \<Longrightarrow>
   concat (map (\<lambda>msg. (key, msg) #
           (if status_of msg = Some ''finished'' then [(key, f msg)] else [])) pre)
   = map (\<lambda>m. (key, m)) pre"
  by (induction pre) (auto simp: terminal_def)

lemma concat_no_history:
  "list_all (\<lambda>m. \<not> terminal m) pre \<Longrightarrow>
   concat (map (\<lambda>msg. if status_of msg = Some ''finished'' then [f msg] else []) pre) = []"
  by (induction pre) (auto simp: terminal_def)

lemma monitor_closing:
  assumes "monitor m tid h info ticks = (m', ms, x)"
  shows "ms = takeWhile (\<lambda>m. \<not> terminal m) ms @ closing m tid info x"
    and "length (filter terminal ms) = (if x = Still_polling then 0 else 1)"
proof -
  have d: "dropWhile (\<lambda>m. \<not> terminal m) ms = closing m tid info x"
    using assms unfolding monitor_def by (rule metadata_phase_closing)
  show sp: "ms = takeWhile (\<lambda>m. \<not> terminal m) ms @ closing m tid info x"
    using takeWhile_dropWhile_id [of "\<lambda>m. \<not> terminal m" ms] unfolding d by simp
  have "filter terminal (takeWhile (\<lambda>m. \<not> terminal m) ms) = []"
    by (rule filter_none) (rule list_all_takeWhile)
  then have "filter terminal ms = filter terminal (closing m tid info x)"
    by (subst sp) simp
  then show "length (filter terminal ms) = (if x = Still_polling then 0 else 1)"
    by (cases x) (simp_all add: terminal_def)
qed


lemma channel_monitor_thread_seeded:
  assumes mgr: "torrent_manager b = Some m"
    and run: "monitor m tid h info ticks = (m', ms, Seeded)"
  shows "channel (monitor_thread b tid mag h info ticks) (''torrent_'' @ tid)
     = channel b (''torrent_'' @ tid) @ takeWhile (\<lambda>m. \<not> terminal m) ms @
       [Finished_torrent (path_join (download_dir m) (info_name info)) (info_name info),
        Torrent_completed tid (path_join (download_dir m) (info_name info)),
        Completed tid (path_join (download_dir m) (info_name info)) (info_name info)]"
proof -
  define key where "key = ''torrent_'' @ tid"
  let ?pre = "takeWhile (\<lambda>m. \<not> terminal m) ms"
  have sp: "ms = ?pre @ closing m tid info Seeded"
    using run by (rule monitor_closing)
  have nt: "list_all (\<lambda>m. \<not> terminal m) ?pre"
    by (rule list_all_takeWhile)
  have "sent (monitor_thread b tid mag h info ticks)
        = sent b @ concat (map (\<lambda>msg. (key, msg) #
           (if status_of msg = Some ''finished''
            then [(key, Torrent_completed tid (save_path_of msg))] else [])) ms)"
    using mgr run
    by (simp add: monitor_thread_def get_torrent_manager_def sent_foldl_callback [OF key_def])
  also have "\<dots> = sent b @ map (\<lambda>m. (key, m)) ?pre @
       [(key, Finished_torrent (path_join (download_dir m) (info_name info)) (info_name info)),
        (key, Torrent_completed tid (path_join (download_dir m) (info_name info))),
        (key, Completed tid (path_join (download_dir m) (info_name info)) (info_name info))]"
    by (subst sp) (simp add: concat_not_finished [OF nt])
  finally have "channel (monitor_thread b tid mag h info ticks) key
     = channel b key @ ?pre @
       [Finished_torrent (path_join (download_dir m) (info_name info)) (info_name info),
        Torrent_completed tid (path_join (download_dir m) (info_name info)),
        Completed tid (path_join (download_dir m) (info_name info)) (info_name info)]"
    by (simp add: channel_def filter_map comp_def)
  then show ?thesis unfolding key_def .
qed

lemma progress_hook_passthrough:
  "progress_hook c = Inr [Downloading_media dl tot sp e]
   \<Longrightarrow> sp = dict_get (hook_d c) ''speed'' (PNum 0) \<and> e = dict_get (hook_d c) ''eta'' (PNum 0)"
  by (auto simp: progress_hook_def Let_def split: if_splits option.splits)

lemma progress_values_downloading_msg [simp]:
  "progress_values (downloading_msg st # ms) = py_round2 (progress st * 100) # progress_values ms"
  by (simp add: downloading_msg_def)

lemma media_job_unregisters: "\<not> is_running (jobs (media_job b w eng final_name)) (w_id w)"
  by (simp add: media_job_def watcher_def unregister_def is_running_def)

lemma add_torrent_never_rejects_id:
  assumes "parse_magnet_uri lt magnet = Inr params"
    and "session_add_torrent lt (session m) params = Inr h'"
  shows "\<exists>m'. add_torrent lt m tid magnet = Inr m' \<and> handles m' tid = Some h'
              \<and> cancel_events m' tid = Some False
              \<and> monitors m' = monitors m @ [(tid, h')]"
  using assms by (simp add: add_torrent_def)

lemma ydl_download_cancelled:
  "list_ex cancel_set cs \<Longrightarrow> \<exists>ms e. ydl_download cs raises = (ms, Some e)"
proof (induction cs)
  case Nil
  then show ?case by simp
next
  case (Cons c cs)
  show ?case
  proof (cases "progress_hook c")
    case (Inl e)
    then show ?thesis by simp
  next
    case (Inr ms0)
    then have "\<not> cancel_set c" by (auto simp: progress_hook_def)
    with Cons.prems have "list_ex cancel_set cs" by simp
    then obtain ms e where "ydl_download cs raises = (ms, Some e)"
      using Cons.IH by blast
    with Inr show ?thesis by simp
  qed
qed

lemma m1_worker_started: "threads m1_started = [m1_worker] \<and> is_running (jobs m1_started) ''m1''"
  by code_simp

lemma t1_manager_present: "torrent_manager t1_added = Some t1_manager"
  by (simp add: t1_manager_def t1_added_def main_add_torrent_def add_t1_def falsy_def Let_def
        get_torrent_manager_def startup_def add_torrent_def sample_lt_def)

lemma download_phase_returns:
  "list_ex (\<lambda>t. cancel_is_set t \<or> is_seed t) ts
   \<Longrightarrow> snd (snd (download_phase m tid h info ts)) \<noteq> Still_polling"
  by (induction ts) (auto simp: Let_def split: prod.splits)

lemma metadata_phase_returns:
  "list_ex cancel_is_set ts
   \<Longrightarrow> snd (snd (metadata_phase m tid h info n ts)) \<noteq> Still_polling"
proof (induction ts arbitrary: m n)
  case Nil
  then show ?case by simp
next
  case (Cons t ts)
  show ?case
  proof (cases "has_metadata t")
    case True
    have "list_ex (\<lambda>t. cancel_is_set t \<or> is_seed t) (t # ts)"
      using Cons.prems by (auto simp: list_ex_iff)
    then have r: "snd (snd (download_phase m tid h info (t # ts))) \<noteq> Still_polling"
      by (rule download_phase_returns)
    obtain m1 ms1 x1 where d: "download_phase m tid h info (t # ts) = (m1, ms1, x1)"
      by (cases "download_phase m tid h info (t # ts)") auto
    from r have "x1 \<noteq> Still_polling" unfolding d by simp
    with True d show ?thesis by (simp del: download_phase.simps)
  next
    case False
    show ?thesis
    proof (cases "cancel_is_set t")
      case True
      with False show ?thesis by simp
    next
      case nc: False
      with Cons.prems have "list_ex cancel_is_set ts" by simp
      then have r: "snd (snd (metadata_phase
          (if Suc n mod 10 = 0 then m\<lparr>announced := announced m @ [h]\<rparr> else m)
          tid h info (Suc n) ts)) \<noteq> Still_polling"
        by (rule Cons.IH)
      obtain m1 ms1 x1 where d:
        "metadata_phase (if Suc n mod 10 = 0 then m\<lparr>announced := announced m @ [h]\<rparr> else m)
           tid h info (Suc n) ts = (m1, ms1, x1)"
        by (cases "metadata_phase (if Suc n mod 10 = 0 then m\<lparr>announced := announced m @ [h]\<rparr> else m)
           tid h info (Suc n) ts") auto
      from r have "x1 \<noteq> Still_polling" unfolding d by simp
      with False nc d show ?thesis by (simp add: Let_def)
    qed
  qed
qed

section \<open>The downloading events of a monitor run\<close>

text \<open>
  The monitor emits one \<open>downloading\<close> event for each poll of the download loop, built
  from the status of that poll alone; \<open>int\<close> truncates toward zero; and the media
  watcher leaves the identifier free.
\<close>

lemma is_downloading_downloading_msg [simp]: "is_downloading (downloading_msg st)"
  by (simp add: downloading_msg_def)

lemma download_phase_downloads:
  "download_phase m tid h info ts = (m', ms, x)
   \<Longrightarrow> filter is_downloading ms
       = map (\<lambda>t. downloading_msg (tick_status t))
           (takeWhile (\<lambda>t. \<not> is_seed t \<and> \<not> cancel_is_set t) ts)"
  by (induction ts arbitrary: m' ms x) (auto simp: Let_def split: if_splits prod.splits)

lemma download_polls_Cons:
  "download_polls (t # ts)
     = (if has_metadata t then takeWhile (\<lambda>t. \<not> is_seed t \<and> \<not> cancel_is_set t) (t # ts)
        else if cancel_is_set t then [] else download_polls ts)"
  by (simp add: download_polls_def)

lemma metadata_phase_downloads:
  "metadata_phase m tid h info n ts = (m', ms, x)
   \<Longrightarrow> filter is_downloading ms
       = map (\<lambda>t. downloading_msg (tick_status t)) (download_polls ts)"
proof (induction ts arbitrary: m n m' ms x)
  case Nil
  then show ?case by (simp add: download_polls_def)
next
  case (Cons t ts)
  show ?case
  proof (cases "has_metadata t")
    case True
    obtain m1 ms1 x1 where d: "download_phase m tid h info (t # ts) = (m1, ms1, x1)"
      by (cases "download_phase m tid h info (t # ts)") auto
    from Cons.prems True d
    have "ms = Metadata (info_name info) (total_size info) (num_files info) # ms1"
      by (simp del: download_phase.simps)
    then have "filter is_downloading ms = filter is_downloading ms1" by simp
    also note download_phase_downloads [OF d]
    finally show ?thesis using True by (simp only: download_polls_Cons if_True)
  next
    case False
    show ?thesis
    proof (cases "cancel_is_set t")
      case True
      with Cons.prems False have "ms = [Cancelled]" by simp
      then show ?thesis using False True by (simp add: download_polls_Cons)
    next
      case nc: False
      obtain m1 ms1 x1 where r:
        "metadata_phase (if Suc n mod 10 = 0 then m\<lparr>announced := announced m @ [h]\<rparr> else m)
           tid h info (Suc n) ts = (m1, ms1, x1)"
        by (cases "metadata_phase (if Suc n mod 10 = 0 then m\<lparr>announced := announced m @ [h]\<rparr> else m)
           tid h info (Suc n) ts") auto
      from Cons.prems False nc r
      have "ms = Fetching_metadata (num_peers (tick_status t)) # ms1"
        by (simp add: Let_def)
      then have "filter is_downloading ms = filter is_downloading ms1" by simp
      also note Cons.IH [OF r]
      finally show ?thesis using False nc by (simp add: download_polls_Cons)
    qed
  qed
qed

lemma progress_values_filter:
  "progress_values ms = progress_values (filter is_downloading ms)"
  by (induction ms rule: progress_values.induct) simp_all

lemma progress_values_map:
  "progress_values (map (\<lambda>t. downloading_msg (tick_status t)) ts)
     = map (\<lambda>t. py_round2 (progress (tick_status t) * 100)) ts"
  by (induction ts) simp_all

lemma monitor_progress_values:
  "progress_values (fst (snd (monitor m tid h info ticks)))
     = map (\<lambda>t. py_round2 (progress (tick_status t) * 100)) (download_polls ticks)"
proof -
  obtain m' ms x where run: "metadata_phase m tid h info 0 ticks = (m', ms, x)"
    by (cases "metadata_phase m tid h info 0 ticks") auto
  have "progress_values ms = progress_values (filter is_downloading ms)"
    by (rule progress_values_filter)
  also have "\<dots> = progress_values (map (\<lambda>t. downloading_msg (tick_status t)) (download_polls ticks))"
    by (simp only: metadata_phase_downloads [OF run])
  also note progress_values_map
  finally show ?thesis by (simp add: monitor_def run)
qed

lemma py_round2_near:
  "\<bar>py_round2 x - x\<bar> \<le> 1 / 200 \<and> (\<exists>k. py_round2 x = of_int k / 100)"
proof -
  have "\<bar>rat_of_int (round_half_even (x * 100)) - x * 100\<bar> \<le> 1 / 2"
    using round_half_even_bounds [of "x * 100"] by linarith
  then have "\<bar>rat_of_int (round_half_even (x * 100)) - x * 100\<bar> / 100 \<le> (1 / 2) / 100"
    by (rule divide_right_mono) simp
  moreover have "\<bar>rat_of_int (round_half_even (x * 100)) - x * 100\<bar> / 100 = \<bar>py_round2 x - x\<bar>"
  proof -
    have "py_round2 x - x = (rat_of_int (round_half_even (x * 100)) - x * 100) / 100"
      by (simp add: py_round2_def diff_divide_distrib)
    then show ?thesis by (simp only: abs_divide)
  qed
  ultimately have "\<bar>py_round2 x - x\<bar> \<le> 1 / 200" by simp
  moreover have "\<exists>k. py_round2 x = of_int k / 100"
    unfolding py_round2_def by blast
  ultimately show ?thesis by blast
qed

lemma sorted_rounded:
  assumes "sorted (map (\<lambda>t. progress (tick_status t)) ts)"
  shows "sorted (map (\<lambda>t. py_round2 (progress (tick_status t) * 100)) ts)"
proof -
  have "sorted_wrt (\<lambda>a b. progress (tick_status a) \<le> progress (tick_status b)) ts"
    using assms by (simp add: sorted_map)
  then have "sorted_wrt (\<lambda>a b. py_round2 (progress (tick_status a) * 100)
                              \<le> py_round2 (progress (tick_status b) * 100)) ts"
    by (rule sorted_wrt_mono_rel [rotated]) (simp add: py_round2_mono)
  then show ?thesis by (simp add: sorted_map)
qed






lemma start_download_after_media_job:
  assumes "\<not> falsy (p ''url'')" and "request_id hash p (the (p ''url'')) = w_id w"
  shows "fst (start_download hash (media_job b w eng final_name) p) = Json_ok (w_id w) ''started''"
  using assms media_job_unregisters [of b w eng final_name]
  by (simp add: start_download_def Let_def)

section \<open>The claims\<close>

text \<open>
  Claim C1 (a creation request for an identifier that is active in its lane is rejected
  with AlreadyRunning, starts no worker and leaves the running job alone). The torrent
  lane does not do this. On the sample run, \<open>t1\<close> is added, a cancel request sets its
  token, and a second add request for \<open>t1\<close> arrives: the request is answered
  \<open>started\<close>, a second monitor thread is started, the entry of \<open>t1\<close> in \<open>handles\<close>
  now names the second handle while the first handle stays in the session, and the
  token under \<open>t1\<close>, which the first monitor reads by key, is a fresh unset one.
\<close>

theorem duplicate_torrent_add_accepted:
  "handles (the (torrent_manager t1_cancel_requested)) ''t1'' = Some 0
   \<and> cancel_events (the (torrent_manager t1_cancel_requested)) ''t1'' = Some True
   \<and> fst (main_add_torrent sample_hash sample_lt t1_cancel_requested add_t1_again)
       = Json_ok ''t1'' ''started''
   \<and> monitors (the (torrent_manager t1_added_twice)) = [(''t1'', 0), (''t1'', 1)]
   \<and> session (the (torrent_manager t1_added_twice)) = [1, 0]
   \<and> handles (the (torrent_manager t1_added_twice)) ''t1'' = Some 1
   \<and> cancel_events (the (torrent_manager t1_added_twice)) ''t1'' = Some False"
  by code_simp

text \<open>
  Claim C2, as amended. Every run of the media worker hands its callback exactly one
  terminal event, as its last message. Every run of the torrent monitor that has left
  its loops has handed over exactly one terminal event (none while it is still
  polling), and after it only what \<open>closing\<close> lists: nothing after \<open>cancelled\<close>, the
  \<open>completed\<close> event after \<open>finished\<close>. On the channel the worker's \<open>finished\<close> is not
  the last message with that status: after a media worker's \<open>finished\<close> comes the
  watcher's \<open>finished\<close> notification, and after the monitor's \<open>finished\<close> come the
  toast message (status \<open>finished\<close>) and the \<open>completed\<close> event.
\<close>

theorem worker_emits_one_terminal_event:
  "dropWhile (\<lambda>m. \<not> terminal m) (download_task dir mode eng) = [last (download_task dir mode eng)]
   \<and> terminal (last (download_task dir mode eng))
   \<and> length (filter terminal (download_task dir mode eng)) = 1
   \<and> (case monitor m tid h info ticks of
        (m', ms, x) \<Rightarrow>
          ms = takeWhile (\<lambda>m. \<not> terminal m) ms @ closing m tid info x
          \<and> length (filter terminal ms) = (if x = Still_polling then 0 else 1))
   \<and> (download_task (w_dir w) (w_mode w) eng = pre @ [Finished_media fp fn] \<longrightarrow>
        channel (media_job b w eng final_name) (w_id w)
          = channel b (w_id w) @ pre @ [Finished_media fp fn, Watcher_finished final_name])
   \<and> (torrent_manager b = Some m \<and> snd (snd (monitor m tid h info ticks)) = Seeded \<longrightarrow>
        channel (monitor_thread b tid mag h info ticks) (''torrent_'' @ tid)
          = channel b (''torrent_'' @ tid)
            @ takeWhile (\<lambda>m. \<not> terminal m) (fst (snd (monitor m tid h info ticks)))
            @ [Finished_torrent (path_join (download_dir m) (info_name info)) (info_name info),
               Torrent_completed tid (path_join (download_dir m) (info_name info)),
               Completed tid (path_join (download_dir m) (info_name info)) (info_name info)])"
proof -
  obtain m' ms x where run: "monitor m tid h info ticks = (m', ms, x)"
    by (cases "monitor m tid h info ticks") auto
  have a: "dropWhile (\<lambda>m. \<not> terminal m) (download_task dir mode eng) = [last (download_task dir mode eng)]
   \<and> terminal (last (download_task dir mode eng))
   \<and> length (filter terminal (download_task dir mode eng)) = 1"
    by (rule download_task_one_terminal)
  have b: "ms = takeWhile (\<lambda>m. \<not> terminal m) ms @ closing m tid info x
          \<and> length (filter terminal ms) = (if x = Still_polling then 0 else 1)"
    using monitor_closing [OF run] by simp
  have c: "download_task (w_dir w) (w_mode w) eng = pre @ [Finished_media fp fn] \<longrightarrow>
        channel (media_job b w eng final_name) (w_id w)
          = channel b (w_id w) @ pre @ [Finished_media fp fn, Watcher_finished final_name]"
    by (simp add: channel_media_job)
  have d: "torrent_manager b = Some m \<and> snd (snd (monitor m tid h info ticks)) = Seeded \<longrightarrow>
        channel (monitor_thread b tid mag h info ticks) (''torrent_'' @ tid)
          = channel b (''torrent_'' @ tid)
            @ takeWhile (\<lambda>m. \<not> terminal m) (fst (snd (monitor m tid h info ticks)))
            @ [Finished_torrent (path_join (download_dir m) (info_name info)) (info_name info),
               Torrent_completed tid (path_join (download_dir m) (info_name info)),
               Completed tid (path_join (download_dir m) (info_name info)) (info_name info)]"
  proof (intro impI, elim conjE)
    assume mgr: "torrent_manager b = Some m"
      and "snd (snd (monitor m tid h info ticks)) = Seeded"
    with run have run': "monitor m tid h info ticks = (m', ms, Seeded)" by simp
    show "channel (monitor_thread b tid mag h info ticks) (''torrent_'' @ tid)
          = channel b (''torrent_'' @ tid)
            @ takeWhile (\<lambda>m. \<not> terminal m) (fst (snd (monitor m tid h info ticks)))
            @ [Finished_torrent (path_join (download_dir m) (info_name info)) (info_name info),
               Torrent_completed tid (path_join (download_dir m) (info_name info)),
               Completed tid (path_join (download_dir m) (info_name info)) (info_name info)]"
      using channel_monitor_thread_seeded [OF mgr run'] by (simp add: run')
  qed
  from a b c d show ?thesis unfolding run by simp
qed

theorem worker_emits_one_terminal_event_witness:
  "download_task (w_dir m1_worker) (w_mode m1_worker) completes
     = [Downloading_media (PNum 4096) (PNum 4096) (PNum 1024) (PNum 3),
        Processing ''Processing file...'']
       @ [Finished_media ''/dl/clip.webm'' ''clip.webm'']
   \<and> channel (media_job t1_added m1_worker completes (Some ''clip.webm'')) ''m1''
     = [Downloading_media (PNum 4096) (PNum 4096) (PNum 1024) (PNum 3),
        Processing ''Processing file...'',
        Finished_media ''/dl/clip.webm'' ''clip.webm'',
        Watcher_finished (Some ''clip.webm'')]
   \<and> torrent_manager t1_added = Some t1_manager
   \<and> snd (snd (monitor t1_manager ''t1'' 0 t1_info polls_to_seed)) = Seeded
   \<and> channel (monitor_thread t1_added ''t1'' ''magnet:?xt=urn:btih:aaaaaaaaaaaaaaaaaaaaaaaaaaaaaaaaaaaaaaaa'' 0 t1_info polls_to_seed)
        ''torrent_t1''
     = [Fetching_metadata 8,
        Metadata ''iso'' 1000 1,
        Downloading_torrent 50 250 0 8 3 2 ''downloading'',
        Finished_torrent ''/dl/Torrents/iso'' ''iso'',
        Torrent_completed ''t1'' ''/dl/Torrents/iso'',
        Completed ''t1'' ''/dl/Torrents/iso'' ''iso'']"
proof -
  have h1: "download_task (w_dir m1_worker) (w_mode m1_worker) completes
     = [Downloading_media (PNum 4096) (PNum 4096) (PNum 1024) (PNum 3),
        Processing ''Processing file...'']
       @ [Finished_media ''/dl/clip.webm'' ''clip.webm'']"
    by code_simp
  have h2: "snd (snd (monitor t1_manager ''t1'' 0 t1_info polls_to_seed)) = Seeded"
    by code_simp
  note h3 = t1_manager_present
  note th = worker_emits_one_terminal_event
    [where w = m1_worker and eng = completes and b = t1_added
       and final_name = "Some ''clip.webm''"
       and pre = "[Downloading_media (PNum 4096) (PNum 4096) (PNum 1024) (PNum 3),
                   Processing ''Processing file...'']"
       and fp = "''/dl/clip.webm''" and fn = "''clip.webm''"
       and m = t1_manager and tid = "''t1''" and h = 0 and info = t1_info and ticks = polls_to_seed
       and mag = "''magnet:?xt=urn:btih:aaaaaaaaaaaaaaaaaaaaaaaaaaaaaaaaaaaaaaaa''" and dir = "''/dl''" and mode = "''video''"]
  from th h1 have a: "channel (media_job t1_added m1_worker completes (Some ''clip.webm'')) (w_id m1_worker)
     = channel t1_added (w_id m1_worker)
       @ [Downloading_media (PNum 4096) (PNum 4096) (PNum 1024) (PNum 3),
          Processing ''Processing file...'']
       @ [Finished_media ''/dl/clip.webm'' ''clip.webm'', Watcher_finished (Some ''clip.webm'')]"
    by blast
  from th h2 h3 have b:
    "channel (monitor_thread t1_added ''t1'' ''magnet:?xt=urn:btih:aaaaaaaaaaaaaaaaaaaaaaaaaaaaaaaaaaaaaaaa'' 0 t1_info polls_to_seed)
        (''torrent_'' @ ''t1'')
     = channel t1_added (''torrent_'' @ ''t1'')
       @ takeWhile (\<lambda>m. \<not> terminal m) (fst (snd (monitor t1_manager ''t1'' 0 t1_info polls_to_seed)))
       @ [Finished_torrent (path_join (download_dir t1_manager) (info_name t1_info)) (info_name t1_info),
          Torrent_completed ''t1'' (path_join (download_dir t1_manager) (info_name t1_info)),
          Completed ''t1'' (path_join (download_dir t1_manager) (info_name t1_info)) (info_name t1_info)]"
    by blast
  have ea: "channel t1_added (w_id m1_worker)
       @ [Downloading_media (PNum 4096) (PNum 4096) (PNum 1024) (PNum 3),
          Processing ''Processing file...'']
       @ [Finished_media ''/dl/clip.webm'' ''clip.webm'', Watcher_finished (Some ''clip.webm'')]
     = [Downloading_media (PNum 4096) (PNum 4096) (PNum 1024) (PNum 3),
        Processing ''Processing file...'',
        Finished_media ''/dl/clip.webm'' ''clip.webm'',
        Watcher_finished (Some ''clip.webm'')]"
    by code_simp
  have eb: "channel t1_added (''torrent_'' @ ''t1'')
       @ takeWhile (\<lambda>m. \<not> terminal m) (fst (snd (monitor t1_manager ''t1'' 0 t1_info polls_to_seed)))
       @ [Finished_torrent (path_join (download_dir t1_manager) (info_name t1_info)) (info_name t1_info),
          Torrent_completed ''t1'' (path_join (download_dir t1_manager) (info_name t1_info)),
          Completed ''t1'' (path_join (download_dir t1_manager) (info_name t1_info)) (info_name t1_info)]
     = [Fetching_metadata 8,
        Metadata ''iso'' 1000 1,
        Downloading_torrent 50 250 0 8 3 2 ''downloading'',
        Finished_torrent ''/dl/Torrents/iso'' ''iso'',
        Torrent_completed ''t1'' ''/dl/Torrents/iso'',
        Completed ''t1'' ''/dl/Torrents/iso'' ''iso'']"
    by code_simp
  have i: "w_id m1_worker = ''m1''" by code_simp
  have k: "''torrent_'' @ ''t1'' = ''torrent_t1''" by simp
  from a have a': "channel (media_job t1_added m1_worker completes (Some ''clip.webm'')) ''m1''
     = [Downloading_media (PNum 4096) (PNum 4096) (PNum 1024) (PNum 3),
        Processing ''Processing file...'',
        Finished_media ''/dl/clip.webm'' ''clip.webm'',
        Watcher_finished (Some ''clip.webm'')]"
    unfolding ea unfolding i .
  from b have b':
    "channel (monitor_thread t1_added ''t1'' ''magnet:?xt=urn:btih:aaaaaaaaaaaaaaaaaaaaaaaaaaaaaaaaaaaaaaaa'' 0 t1_info polls_to_seed)
        ''torrent_t1''
     = [Fetching_metadata 8,
        Metadata ''iso'' 1000 1,
        Downloading_torrent 50 250 0 8 3 2 ''downloading'',
        Finished_torrent ''/dl/Torrents/iso'' ''iso'',
        Torrent_completed ''t1'' ''/dl/Torrents/iso'',
        Completed ''t1'' ''/dl/Torrents/iso'' ''iso'']"
    unfolding eb unfolding k .
  from h1 a' h3 h2 b' show ?thesis by blast
qed

text \<open>
  Claim C2 as stated fails: the channel of a media job that completes carries two
  terminal events, and the channel of a torrent that completes carries two messages
  after the monitor's \<open>finished\<close>.
\<close>

theorem second_finished_on_channel_counterexample:
  "channel (media_job m1_started m1_worker completes (Some ''clip.webm'')) ''m1''
     = [Downloading_media (PNum 4096) (PNum 4096) (PNum 1024) (PNum 3),
        Processing ''Processing file...'',
        Finished_media ''/dl/clip.webm'' ''clip.webm'',
        Watcher_finished (Some ''clip.webm'')]
   \<and> length (filter terminal
        (channel (media_job m1_started m1_worker completes (Some ''clip.webm'')) ''m1'')) = 2
   \<and> channel (monitor_thread t1_added ''t1'' ''magnet:?xt=urn:btih:aaaaaaaaaaaaaaaaaaaaaaaaaaaaaaaaaaaaaaaa'' 0 t1_info polls_to_seed)
        ''torrent_t1''
     = [Fetching_metadata 8,
        Metadata ''iso'' 1000 1,
        Downloading_torrent 50 250 0 8 3 2 ''downloading'',
        Finished_torrent ''/dl/Torrents/iso'' ''iso'',
        Torrent_completed ''t1'' ''/dl/Torrents/iso'',
        Completed ''t1'' ''/dl/Torrents/iso'' ''iso'']"
  by code_simp

text \<open>
  Claim C3 (a media job cancelled while downloading emits exactly one \<open>cancelled\<close>
  event, no \<open>finished\<close> event and nothing after it). On the sample run the token is
  found set at the third progress tick: the hook raises, the worker's \<open>except\<close> branch
  reports status \<open>error\<close> with the text "Download cancelled", no \<open>cancelled\<close> event
  is sent, and the watcher then sends \<open>finished\<close>.
\<close>

theorem mid_download_cancel_reports_error:
  "download_task ''/dl'' ''video'' cancelled_mid_download
     = [Downloading_media (PNum 1024) (PNum 4096) (PNum 1024) (PNum 3),
        Downloading_media (PNum 2048) (PNum 4096) (PNum 1024) (PNum 3),
        Error ''Download cancelled'']
   \<and> channel (media_job m1_started m1_worker cancelled_mid_download None) ''m1''
     = [Downloading_media (PNum 1024) (PNum 4096) (PNum 1024) (PNum 3),
        Downloading_media (PNum 2048) (PNum 4096) (PNum 1024) (PNum 3),
        Error ''Download cancelled'',
        Watcher_finished None]"
  by code_simp

text \<open>
  Claim C4 (the history collaborator is called exactly once when, and only when, the
  job ends in Finished). On the sample run the media job is cancelled right after
  extraction: the worker reports \<open>cancelled\<close>, and the watcher still adds a history
  entry with status \<open>completed\<close>.
\<close>

theorem cancelled_media_job_gets_history_entry:
  "channel (media_job m1_started m1_worker cancelled_at_extraction None) ''m1''
     = [Cancelled, Watcher_finished None]
   \<and> history (media_job m1_started m1_worker cancelled_at_extraction None)
     = [\<lparr>h_id = ''m1'', h_url = ''http://v/1'', h_filename = None, h_mode = ''video'',
         h_status = ''completed''\<rparr>]"
  by code_simp







text \<open>
  Claim C7, as amended. The progress values of the \<open>downloading\<close> events of a run are
  exactly \<open>round (progress * 100, 2)\<close> of the statuses read at the polls of the
  download loop, one for each poll and in order: the monitor neither clamps a value
  nor remembers the previous one. Rounding moves a value by at most 1 / 200 and
  yields a multiple of 1 / 100. So the emitted values are non-decreasing when the
  engine's readings are, and at most 100 when the engine's readings are at most 1.
\<close>

theorem torrent_progress_follows_engine:
  "progress_values (fst (snd (monitor m tid h info ticks)))
     = map (\<lambda>t. py_round2 (progress (tick_status t) * 100)) (download_polls ticks)
   \<and> \<bar>py_round2 x - x\<bar> \<le> 1 / 200 \<and> (\<exists>k. py_round2 x = of_int k / 100)
   \<and> (sorted (map (\<lambda>t. progress (tick_status t)) (download_polls ticks)) \<longrightarrow>
        sorted (progress_values (fst (snd (monitor m tid h info ticks)))))
   \<and> (list_all (\<lambda>t. progress (tick_status t) \<le> 1) (download_polls ticks) \<longrightarrow>
        list_all (\<lambda>p. p \<le> 100) (progress_values (fst (snd (monitor m tid h info ticks)))))"
proof -
  note eq = monitor_progress_values [of m tid h info ticks]
  have a: "sorted (progress_values (fst (snd (monitor m tid h info ticks))))"
    if "sorted (map (\<lambda>t. progress (tick_status t)) (download_polls ticks))"
    unfolding eq using that by (rule sorted_rounded)
  have b: "list_all (\<lambda>p. p \<le> 100) (progress_values (fst (snd (monitor m tid h info ticks))))"
    if "list_all (\<lambda>t. progress (tick_status t) \<le> 1) (download_polls ticks)"
    unfolding eq using that by (simp add: list_all_iff py_round2_percent_le)
  from eq py_round2_near [of x] a b show ?thesis by blast
qed

theorem torrent_progress_follows_engine_witness:
  "download_polls polls_three_downloads
     = [poll True False False (sample_status (3 / 10) 100 300),
        poll True False False (sample_status (1 / 2) 250 500),
        poll True False False (sample_status (4 / 5) 0 800)]
   \<and> sorted (map (\<lambda>t. progress (tick_status t)) (download_polls polls_three_downloads))
   \<and> list_all (\<lambda>t. progress (tick_status t) \<le> 1) (download_polls polls_three_downloads)
   \<and> progress_values (fst (snd (monitor t1_manager ''t1'' 0 t1_info polls_three_downloads)))
       = [30, 50, 80]
   \<and> sorted (progress_values (fst (snd (monitor t1_manager ''t1'' 0 t1_info polls_three_downloads))))
   \<and> list_all (\<lambda>p. p \<le> 100)
        (progress_values (fst (snd (monitor t1_manager ''t1'' 0 t1_info polls_three_downloads))))
   \<and> progress_values (fst (snd (monitor t1_manager ''t1'' 0 t1_info polls_out_of_range)))
       = [150, - 25]"
proof -
  have p: "download_polls polls_three_downloads
     = [poll True False False (sample_status (3 / 10) 100 300),
        poll True False False (sample_status (1 / 2) 250 500),
        poll True False False (sample_status (4 / 5) 0 800)]"
    by (simp add: download_polls_def polls_three_downloads_def poll_def)
  have h1: "sorted (map (\<lambda>t. progress (tick_status t)) (download_polls polls_three_downloads))"
    unfolding p by (simp add: poll_def sample_status_def)
  have h2: "list_all (\<lambda>t. progress (tick_status t) \<le> 1) (download_polls polls_three_downloads)"
    unfolding p by (simp add: poll_def sample_status_def)
  note th = torrent_progress_follows_engine
    [where m = t1_manager and tid = "''t1''" and h = 0 and info = t1_info
       and ticks = polls_three_downloads]
  note th2 = torrent_progress_follows_engine
    [where m = t1_manager and tid = "''t1''" and h = 0 and info = t1_info
       and ticks = polls_out_of_range, THEN conjunct1]
  have v1: "map (\<lambda>t. py_round2 (progress (tick_status t) * 100)) (download_polls polls_three_downloads)
            = [30, 50, 80]"
    by code_simp
  have v2: "map (\<lambda>t. py_round2 (progress (tick_status t) * 100)) (download_polls polls_out_of_range)
            = [150, - 25]"
    by code_simp
  from th have e1: "progress_values (fst (snd (monitor t1_manager ''t1'' 0 t1_info polls_three_downloads)))
       = [30, 50, 80]"
    unfolding v1 by (rule conjunct1)
  from th2 have e2: "progress_values (fst (snd (monitor t1_manager ''t1'' 0 t1_info polls_out_of_range)))
       = [150, - 25]"
    unfolding v2 .
  from th h1 h2 have s:
    "sorted (progress_values (fst (snd (monitor t1_manager ''t1'' 0 t1_info polls_three_downloads))))
     \<and> list_all (\<lambda>p. p \<le> 100)
        (progress_values (fst (snd (monitor t1_manager ''t1'' 0 t1_info polls_three_downloads))))"
    by blast
  from p h1 h2 e1 e2 s show ?thesis by blast
qed

text \<open>
  Claim C7 as stated fails when the engine's reading drops between two polls (as it
  does after a recheck of the files): the monitor emits 50 and then 40.
\<close>

theorem progress_regresses_with_engine_counterexample:
  "progress_values (fst (snd (monitor t1_manager ''t1'' 0 t1_info polls_regressing))) = [50, 40]
   \<and> \<not> sorted (progress_values (fst (snd (monitor t1_manager ''t1'' 0 t1_info polls_regressing))))"
  by code_simp

text \<open>
  Claim C8 (once a job's worker has terminated, its registry entry is removed and the
  identifier is no longer active). The torrent lane does not do this on completion:
  after the sample run that ends with \<open>finished\<close>, the identifier \<open>t1\<close> is still in
  \<open>handles\<close> and in \<open>cancel_events\<close>, and \<open>get_status\<close> still answers for it. The media
  lane does it: after the run of the media job \<open>m1\<close> the identifier is not registered.
\<close>

theorem registry_kept_after_torrent_exit:
  "snd (snd (monitor t1_manager ''t1'' 0 t1_info polls_to_seed)) = Seeded
   \<and> handles (fst (monitor t1_manager ''t1'' 0 t1_info polls_to_seed)) ''t1'' = Some 0
   \<and> cancel_events (fst (monitor t1_manager ''t1'' 0 t1_info polls_to_seed)) ''t1'' = Some False
   \<and> get_status (fst (monitor t1_manager ''t1'' 0 t1_info polls_to_seed))
        (\<lambda>_. sample_status 1 0 1000) ''t1'' = Inr (100, 0, 8)
   \<and> \<not> is_running (jobs (media_job m1_started m1_worker completes (Some ''clip.webm''))) ''m1''"
  by code_simp

text \<open>
  Claim C9 (cancelling an identifier with no active job changes nothing and is
  reported as "not found"). The torrent route does not report it: for the unknown
  identifier \<open>nope\<close> the manager's \<open>get_status\<close> answers "not found", but the cancel
  route answers \<open>cancelling\<close>, where the media route answers 404 "not found".
\<close>

theorem cancel_unknown_torrent_reports_cancelling:
  "get_status (the (torrent_manager t1_added)) (\<lambda>_. sample_status 0 0 0) ''nope'' = Inl ''not found''
   \<and> fst (cancel_torrent_download t1_added [''id'' \<mapsto> ''nope'']) = Json_ok ''nope'' ''cancelling''
   \<and> fst (cancel_download m1_started [''id'' \<mapsto> ''nope'']) = Json_error 404 ''not found''"
  by code_simp

section \<open>Further properties of the media lane and of the history log\<close>

text \<open>
  A creation request in the media lane whose identifier is registered is rejected
  with "job already running" and changes nothing.
\<close>

theorem start_download_rejects_running:
  assumes "\<not> falsy (p ''url'')"
    and "is_running (jobs b) (request_id hash p (the (p ''url'')))"
  shows "start_download hash b p = (Json_error 400 ''job already running'', b)"
  using assms by (simp add: start_download_def Let_def)

theorem start_download_rejects_running_witness:
  "\<not> falsy (start_m1 ''url'')
   \<and> is_running (jobs m1_started) (request_id sample_hash start_m1 (the (start_m1 ''url'')))
   \<and> start_download sample_hash m1_started start_m1
       = (Json_error 400 ''job already running'', m1_started)"
proof -
  have h1: "\<not> falsy (start_m1 ''url'')" by code_simp
  have h2: "is_running (jobs m1_started) (request_id sample_hash start_m1 (the (start_m1 ''url'')))"
    by code_simp
  from start_download_rejects_running [OF h1 h2] h1 h2 show ?thesis by blast
qed

text \<open>
  \<open>cancel_download\<close>: an identifier that is not registered gets 404 "not found" and
  the state is unchanged; for a registered one the token is set, nothing else changes,
  and a second cancel request leaves the state as the first one did.
\<close>

theorem cancel_download_contract:
  "(\<not> falsy (p ''id'') \<and> \<not> is_running (jobs b) (the (p ''id'')) \<longrightarrow>
      cancel_download b p = (Json_error 404 ''not found'', b))
   \<and> (\<not> falsy (p ''id'') \<and> jobs b (the (p ''id'')) = Some j \<longrightarrow>
      fst (cancel_download b p) = Json_ok (the (p ''id'')) ''cancelling''
      \<and> event_set (snd (cancel_download b p)) (cancel_event j)
      \<and> jobs (snd (cancel_download b p)) = jobs b
      \<and> threads (snd (cancel_download b p)) = threads b
      \<and> sent (snd (cancel_download b p)) = sent b
      \<and> snd (cancel_download (snd (cancel_download b p)) p) = snd (cancel_download b p))"
  by (auto simp: cancel_download_def Let_def get_cancel_event_def is_running_def
        split: option.splits)

theorem cancel_download_contract_witness:
  "\<not> falsy ([''id'' \<mapsto> ''nope''] ''id'')
   \<and> \<not> is_running (jobs m1_started) (the ([''id'' \<mapsto> ''nope''] ''id''))
   \<and> cancel_download m1_started [''id'' \<mapsto> ''nope''] = (Json_error 404 ''not found'', m1_started)
   \<and> \<not> falsy ([''id'' \<mapsto> ''m1''] ''id'')
   \<and> jobs m1_started (the ([''id'' \<mapsto> ''m1''] ''id'')) = Some \<lparr>thread = 0, cancel_event = 0\<rparr>
   \<and> fst (cancel_download m1_started [''id'' \<mapsto> ''m1'']) = Json_ok ''m1'' ''cancelling''
   \<and> event_set (snd (cancel_download m1_started [''id'' \<mapsto> ''m1''])) 0"
proof -
  have h1: "\<not> falsy ([''id'' \<mapsto> ''nope''] ''id'')
            \<and> \<not> is_running (jobs m1_started) (the ([''id'' \<mapsto> ''nope''] ''id''))"
    by code_simp
  have h2: "\<not> falsy ([''id'' \<mapsto> ''m1''] ''id'')
            \<and> jobs m1_started (the ([''id'' \<mapsto> ''m1''] ''id'')) = Some \<lparr>thread = 0, cancel_event = 0\<rparr>"
    by code_simp
  note a = cancel_download_contract
    [where p = "[''id'' \<mapsto> ''nope'']" and b = m1_started, THEN conjunct1]
  note b = cancel_download_contract
    [where p = "[''id'' \<mapsto> ''m1'']" and b = m1_started
       and j = "\<lparr>thread = 0, cancel_event = 0\<rparr>", THEN conjunct2]
  from a h1 have a': "cancel_download m1_started [''id'' \<mapsto> ''nope'']
      = (Json_error 404 ''not found'', m1_started)"
    by blast
  from b h2 have b': "fst (cancel_download m1_started [''id'' \<mapsto> ''m1''])
        = Json_ok (the ([''id'' \<mapsto> ''m1''] ''id'')) ''cancelling''
      \<and> event_set (snd (cancel_download m1_started [''id'' \<mapsto> ''m1'']))
           (cancel_event \<lparr>thread = 0, cancel_event = 0\<rparr>)"
    by blast
  from h1 h2 a' b' show ?thesis by simp
qed

text \<open>
  The history log: a media job adds one entry with status \<open>completed\<close> however its
  worker ended; a run of a torrent monitor adds one entry when it ends with
  \<open>finished\<close> and none otherwise.
\<close>

theorem history_entries_per_job:
  "history (media_job b w eng final_name)
     = history b @ [\<lparr>h_id = w_id w, h_url = w_url w, h_filename = final_name, h_mode = w_mode w,
                     h_status = ''completed''\<rparr>]
   \<and> (torrent_manager b = Some m \<longrightarrow>
        history (monitor_thread b tid mag h info ticks)
          = history b @
            (if snd (snd (monitor m tid h info ticks)) = Seeded
             then [\<lparr>h_id = tid, h_url = mag,
                    h_filename = Some (path_name (path_join (download_dir m) (info_name info))),
                    h_mode = ''torrent'', h_status = ''completed''\<rparr>]
             else []))"
proof (intro conjI impI)
  show "history (media_job b w eng final_name)
     = history b @ [\<lparr>h_id = w_id w, h_url = w_url w, h_filename = final_name, h_mode = w_mode w,
                     h_status = ''completed''\<rparr>]"
    by (rule history_media_job)
next
  assume mgr: "torrent_manager b = Some m"
  obtain m' ms x where run: "monitor m tid h info ticks = (m', ms, x)"
    by (cases "monitor m tid h info ticks") auto
  let ?pre = "takeWhile (\<lambda>m. \<not> terminal m) ms"
  let ?entry = "\<lambda>msg. \<lparr>h_id = tid, h_url = mag,
                  h_filename = Some (if save_path_of msg \<noteq> [] then path_name (save_path_of msg) else []),
                  h_mode = ''torrent'', h_status = ''completed''\<rparr>"
  have sp: "ms = ?pre @ closing m tid info x"
    using run by (rule monitor_closing)
  have nt: "list_all (\<lambda>m. \<not> terminal m) ?pre"
    by (rule list_all_takeWhile)
  have "history (monitor_thread b tid mag h info ticks)
        = history b @ concat (map (\<lambda>msg.
           if status_of msg = Some ''finished'' then [?entry msg] else []) ms)"
    using mgr run
    by (simp add: monitor_thread_def get_torrent_manager_def history_foldl_callback)
  also have "concat (map (\<lambda>msg.
           if status_of msg = Some ''finished'' then [?entry msg] else []) ms)
      = concat (map (\<lambda>msg.
           if status_of msg = Some ''finished'' then [?entry msg] else []) (closing m tid info x))"
    by (subst sp) (simp add: concat_no_history [OF nt])
  also have "\<dots> = (if x = Seeded
             then [\<lparr>h_id = tid, h_url = mag,
                    h_filename = Some (path_name (path_join (download_dir m) (info_name info))),
                    h_mode = ''torrent'', h_status = ''completed''\<rparr>]
             else [])"
    by (cases x) (simp_all add: path_join_def)
  finally show "history (monitor_thread b tid mag h info ticks)
          = history b @
            (if snd (snd (monitor m tid h info ticks)) = Seeded
             then [\<lparr>h_id = tid, h_url = mag,
                    h_filename = Some (path_name (path_join (download_dir m) (info_name info))),
                    h_mode = ''torrent'', h_status = ''completed''\<rparr>]
             else [])"
    by (simp add: run)
qed

theorem history_entries_per_job_witness:
  "torrent_manager t1_added = Some t1_manager
   \<and> history (monitor_thread t1_added ''t1'' ''magnet:?xt=urn:btih:aaaaaaaaaaaaaaaaaaaaaaaaaaaaaaaaaaaaaaaa'' 0 t1_info
        polls_cancelled_downloading) = []
   \<and> history (monitor_thread t1_added ''t1'' ''magnet:?xt=urn:btih:aaaaaaaaaaaaaaaaaaaaaaaaaaaaaaaaaaaaaaaa'' 0 t1_info polls_to_seed)
      = [\<lparr>h_id = ''t1'', h_url = ''magnet:?xt=urn:btih:aaaaaaaaaaaaaaaaaaaaaaaaaaaaaaaaaaaaaaaa'', h_filename = Some ''iso'',
          h_mode = ''torrent'', h_status = ''completed''\<rparr>]"
proof -
  note h = t1_manager_present
  note a = history_entries_per_job
    [where b = t1_added and m = t1_manager and tid = "''t1''" and mag = "''magnet:?xt=urn:btih:aaaaaaaaaaaaaaaaaaaaaaaaaaaaaaaaaaaaaaaa''"
       and h = 0 and info = t1_info and ticks = polls_cancelled_downloading, THEN conjunct2]
  note b = history_entries_per_job
    [where b = t1_added and m = t1_manager and tid = "''t1''" and mag = "''magnet:?xt=urn:btih:aaaaaaaaaaaaaaaaaaaaaaaaaaaaaaaaaaaaaaaa''"
       and h = 0 and info = t1_info and ticks = polls_to_seed, THEN conjunct2]
  have ea: "history t1_added @
            (if snd (snd (monitor t1_manager ''t1'' 0 t1_info polls_cancelled_downloading)) = Seeded
             then [\<lparr>h_id = ''t1'', h_url = ''magnet:?xt=urn:btih:aaaaaaaaaaaaaaaaaaaaaaaaaaaaaaaaaaaaaaaa'',
                    h_filename = Some (path_name (path_join (download_dir t1_manager) (info_name t1_info))),
                    h_mode = ''torrent'', h_status = ''completed''\<rparr>]
             else []) = []"
    by code_simp
  have eb: "history t1_added @
            (if snd (snd (monitor t1_manager ''t1'' 0 t1_info polls_to_seed)) = Seeded
             then [\<lparr>h_id = ''t1'', h_url = ''magnet:?xt=urn:btih:aaaaaaaaaaaaaaaaaaaaaaaaaaaaaaaaaaaaaaaa'',
                    h_filename = Some (path_name (path_join (download_dir t1_manager) (info_name t1_info))),
                    h_mode = ''torrent'', h_status = ''completed''\<rparr>]
             else [])
        = [\<lparr>h_id = ''t1'', h_url = ''magnet:?xt=urn:btih:aaaaaaaaaaaaaaaaaaaaaaaaaaaaaaaaaaaaaaaa'', h_filename = Some ''iso'',
            h_mode = ''torrent'', h_status = ''completed''\<rparr>]"
    by code_simp
  from a h have a': "history (monitor_thread t1_added ''t1'' ''magnet:?xt=urn:btih:aaaaaaaaaaaaaaaaaaaaaaaaaaaaaaaaaaaaaaaa'' 0 t1_info
        polls_cancelled_downloading) = []"
    unfolding ea by blast
  from b h have b': "history (monitor_thread t1_added ''t1'' ''magnet:?xt=urn:btih:aaaaaaaaaaaaaaaaaaaaaaaaaaaaaaaaaaaaaaaa'' 0 t1_info polls_to_seed)
      = [\<lparr>h_id = ''t1'', h_url = ''magnet:?xt=urn:btih:aaaaaaaaaaaaaaaaaaaaaaaaaaaaaaaaaaaaaaaa'', h_filename = Some ''iso'',
          h_mode = ''torrent'', h_status = ''completed''\<rparr>]"
    unfolding eb by blast
  from h a' b' show ?thesis by blast
qed

text \<open>
  A media worker that gets past extraction and finds the token set at some progress
  tick ends with an \<open>error\<close> event and never sends \<open>cancelled\<close>.
\<close>

theorem cancel_while_downloading_never_reports_cancelled:
  assumes "extract_info eng = Inr info" and "\<not> cancel_after_extract eng"
    and "list_ex cancel_set (hook_calls eng)"
  shows "Cancelled \<notin> set (download_task dir mode eng)
       \<and> (\<exists>e. last (download_task dir mode eng) = Error e)"
proof (cases "prepare_filename eng")
  case (Inl e)
  with assms show ?thesis by (simp add: download_task_def)
next
  case (Inr prepared)
  obtain ms e where dl: "ydl_download (hook_calls eng) (download_raises eng) = (ms, Some e)"
    using ydl_download_cancelled [OF assms(3)] by blast
  have nt: "list_all (\<lambda>m. \<not> terminal m) ms"
    using dl by (rule ydl_download_not_terminal)
  have "terminal Cancelled" by (simp add: terminal_def)
  with nt have "Cancelled \<notin> set ms" by (auto simp: list_all_iff)
  moreover have "download_task dir mode eng = ms @ [Error e]"
    using assms(1,2) Inr dl by (simp add: download_task_def Let_def)
  ultimately show ?thesis by simp
qed

theorem cancel_while_downloading_never_reports_cancelled_witness:
  "extract_info cancelled_mid_download = Inr \<lparr>info_title = Some ''clip'', info_ext = Some ''webm''\<rparr>
   \<and> \<not> cancel_after_extract cancelled_mid_download
   \<and> list_ex cancel_set (hook_calls cancelled_mid_download)
   \<and> Cancelled \<notin> set (download_task ''/dl'' ''video'' cancelled_mid_download)
   \<and> last (download_task ''/dl'' ''video'' cancelled_mid_download) = Error ''Download cancelled''"
proof -
  have h1: "extract_info cancelled_mid_download
              = Inr \<lparr>info_title = Some ''clip'', info_ext = Some ''webm''\<rparr>"
    by (simp add: cancelled_mid_download_def)
  have h2: "\<not> cancel_after_extract cancelled_mid_download" by code_simp
  have h3: "list_ex cancel_set (hook_calls cancelled_mid_download)" by code_simp
  have v: "last (download_task ''/dl'' ''video'' cancelled_mid_download) = Error ''Download cancelled''"
    by code_simp
  from cancel_while_downloading_never_reports_cancelled [OF h1 h2 h3, of "''/dl''" "''video''"]
  have "Cancelled \<notin> set (download_task ''/dl'' ''video'' cancelled_mid_download)" by blast
  with h1 h2 h3 v show ?thesis by blast
qed

text \<open>
  Once some poll reads the token set, the run of the monitor has returned (on
  cancellation, or on completion if that was seen first) and has emitted exactly one
  terminal event.
\<close>

theorem monitor_returns_once_token_reads_set:
  assumes "list_ex cancel_is_set ticks"
  shows "snd (snd (monitor m tid h info ticks)) \<noteq> Still_polling
       \<and> length (filter terminal (fst (snd (monitor m tid h info ticks)))) = 1"
proof -
  obtain m' ms x where run: "monitor m tid h info ticks = (m', ms, x)"
    by (cases "monitor m tid h info ticks") auto
  have "snd (snd (monitor m tid h info ticks)) \<noteq> Still_polling"
    unfolding monitor_def using assms by (rule metadata_phase_returns)
  then have x: "x \<noteq> Still_polling" by (simp add: run)
  with monitor_closing(2) [OF run] show ?thesis by (simp add: run)
qed

theorem monitor_returns_once_token_reads_set_witness:
  "list_ex cancel_is_set polls_cancelled_downloading
   \<and> snd (snd (monitor t1_manager ''t1'' 0 t1_info polls_cancelled_downloading)) \<noteq> Still_polling
   \<and> fst (snd (monitor t1_manager ''t1'' 0 t1_info polls_cancelled_downloading))
      = [Fetching_metadata 8, Metadata ''iso'' 1000 1,
         Downloading_torrent 50 250 0 8 3 2 ''downloading'', Cancelled]"
proof -
  have h: "list_ex cancel_is_set polls_cancelled_downloading" by code_simp
  have v: "fst (snd (monitor t1_manager ''t1'' 0 t1_info polls_cancelled_downloading))
      = [Fetching_metadata 8, Metadata ''iso'' 1000 1,
         Downloading_torrent 50 250 0 8 3 2 ''downloading'', Cancelled]"
    by code_simp
  from monitor_returns_once_token_reads_set [OF h, of t1_manager "''t1''" 0 t1_info]
  have "snd (snd (monitor t1_manager ''t1'' 0 t1_info polls_cancelled_downloading)) \<noteq> Still_polling"
    by blast
  with h v show ?thesis by blast
qed

text \<open>
  In the media lane the watcher unregisters the job however the worker ended: after
  it the identifier is not registered, and a creation request that resolves to the
  same identifier, given or derived, is accepted.
\<close>

theorem media_registry_freed_after_exit:
  "\<not> is_running (jobs (media_job b w eng final_name)) (w_id w)
   \<and> (\<not> falsy (p ''url'') \<and> request_id hash p (the (p ''url'')) = w_id w \<longrightarrow>
        fst (start_download hash (media_job b w eng final_name) p) = Json_ok (w_id w) ''started'')"
  using media_job_unregisters [of b w eng final_name]
    start_download_after_media_job [of p hash w b eng final_name]
  by blast

theorem media_registry_freed_after_exit_witness:
  "\<not> falsy (start_m1 ''url'')
   \<and> request_id sample_hash start_m1 (the (start_m1 ''url'')) = w_id m1_worker
   \<and> is_running (jobs m1_started) ''m1''
   \<and> \<not> is_running (jobs (media_job m1_started m1_worker cancelled_mid_download None)) ''m1''
   \<and> fst (start_download sample_hash (media_job m1_started m1_worker cancelled_mid_download None)
           start_m1) = Json_ok ''m1'' ''started''"
proof -
  have h: "\<not> falsy (start_m1 ''url'')
           \<and> request_id sample_hash start_m1 (the (start_m1 ''url'')) = w_id m1_worker"
    by code_simp
  have r: "is_running (jobs m1_started) ''m1''" by code_simp
  have i: "w_id m1_worker = ''m1''" by code_simp
  note th = media_registry_freed_after_exit
    [where b = m1_started and w = m1_worker and eng = cancelled_mid_download
       and final_name = None and p = start_m1 and hash = sample_hash]
  from th have a: "\<not> is_running (jobs (media_job m1_started m1_worker cancelled_mid_download None))
                      (w_id m1_worker)"
    by (rule conjunct1)
  from th h have b: "fst (start_download sample_hash
      (media_job m1_started m1_worker cancelled_mid_download None) start_m1)
      = Json_ok (w_id m1_worker) ''started''"
    by blast
  from h r a b show ?thesis unfolding i by blast
qed

end
